theory Spec2Isabelle
  imports Main "HOL-Library.Word"
begin

unbundle bit_operations_syntax

section \<open>Machine types\<close>

text \<open>
  Go's fixed-width integers are words; a signed and an unsigned type of the same width
  share the word type and differ in how the word is read (\<open>sint\<close> or \<open>uint\<close>).
  The platform-sized types \<open>int\<close>, \<open>uint\<close> and \<open>uintptr\<close> are taken at 64 bits.
  Lengths and indices of slices (Go's \<open>int\<close> results of \<open>len\<close>) are natural numbers;
  every conversion of a length to \<open>int32\<close> is written out as \<open>word_of_int\<close>, which wraps.
  A Go string is its sequence of bytes: \<open>[]byte(v)\<close> is \<open>bytes_of v\<close>.
\<close>

type_synonym byte = "8 word"
type_synonym int8 = "8 word"
type_synonym int16 = "16 word"
type_synonym uint16 = "16 word"
type_synonym int32 = "32 word"
type_synonym uint32 = "32 word"
type_synonym int64 = "64 word"
type_synonym uint64 = "64 word"

definition bytes_of :: "string \<Rightarrow> byte list" where
  "bytes_of v = map of_char v"

text \<open>
  A \<open>float64\<close> is represented by its IEEE-754 bit pattern, which is what
  \<open>math.Float64bits\<close> returns; no floating-point arithmetic is modelled.
\<close>

datatype float64 = Float64frombits (Float64bits: uint64)

section \<open>Package bson: byte order (byteorder.go)\<close>

datatype ByteOrder = LittleEndian | BigEndian

definition littleEndian_AppendInt32 :: "byte list \<Rightarrow> int32 \<Rightarrow> byte list" where
  "littleEndian_AppendInt32 b v =
     (let u = v in b @ [ucast u, ucast (drop_bit 8 u), ucast (drop_bit 16 u), ucast (drop_bit 24 u)])"

definition littleEndian_AppendInt64 :: "byte list \<Rightarrow> int64 \<Rightarrow> byte list" where
  "littleEndian_AppendInt64 b v =
     (let u = v in b @ [ucast u, ucast (drop_bit 8 u), ucast (drop_bit 16 u), ucast (drop_bit 24 u),
        ucast (drop_bit 32 u), ucast (drop_bit 40 u), ucast (drop_bit 48 u), ucast (drop_bit 56 u)])"

definition littleEndian_AppendFloat64 :: "byte list \<Rightarrow> float64 \<Rightarrow> byte list" where
  "littleEndian_AppendFloat64 b v = (let u = Float64bits v in littleEndian_AppendInt64 b u)"

definition bigEndian_AppendInt32 :: "byte list \<Rightarrow> int32 \<Rightarrow> byte list" where
  "bigEndian_AppendInt32 b v =
     (let u = v in b @ [ucast (drop_bit 24 u), ucast (drop_bit 16 u), ucast (drop_bit 8 u), ucast u])"

definition bigEndian_AppendInt64 :: "byte list \<Rightarrow> int64 \<Rightarrow> byte list" where
  "bigEndian_AppendInt64 b v =
     (let u = v in b @ [ucast (drop_bit 56 u), ucast (drop_bit 48 u), ucast (drop_bit 40 u),
        ucast (drop_bit 32 u), ucast (drop_bit 24 u), ucast (drop_bit 16 u), ucast (drop_bit 8 u),
        ucast u])"

definition bigEndian_AppendFloat64 :: "byte list \<Rightarrow> float64 \<Rightarrow> byte list" where
  "bigEndian_AppendFloat64 b v = (let u = Float64bits v in bigEndian_AppendInt64 b u)"

text \<open>The interface \<open>ByteOrder\<close> dispatches on the implementation held by the value.\<close>

definition ByteOrder_AppendInt32 :: "ByteOrder \<Rightarrow> byte list \<Rightarrow> int32 \<Rightarrow> byte list" where
  "ByteOrder_AppendInt32 order b v =
     (case order of LittleEndian \<Rightarrow> littleEndian_AppendInt32 b v
                  | BigEndian \<Rightarrow> bigEndian_AppendInt32 b v)"

definition ByteOrder_AppendInt64 :: "ByteOrder \<Rightarrow> byte list \<Rightarrow> int64 \<Rightarrow> byte list" where
  "ByteOrder_AppendInt64 order b v =
     (case order of LittleEndian \<Rightarrow> littleEndian_AppendInt64 b v
                  | BigEndian \<Rightarrow> bigEndian_AppendInt64 b v)"

definition ByteOrder_AppendFloat64 :: "ByteOrder \<Rightarrow> byte list \<Rightarrow> float64 \<Rightarrow> byte list" where
  "ByteOrder_AppendFloat64 order b v =
     (case order of LittleEndian \<Rightarrow> littleEndian_AppendFloat64 b v
                  | BigEndian \<Rightarrow> bigEndian_AppendFloat64 b v)"

text \<open>
  \<open>init\<close> looks at the first byte of the host's in-memory image of \<open>x := 0x1234\<close>.
  The image is the one thing the host decides, so it is the argument: \<open>host_image h\<close> is the
  image on a host of byte order \<open>h\<close> (with \<open>N = 8\<close>). The result is the package variable
  \<open>byteOrder\<close>.
\<close>

definition host_image :: "ByteOrder \<Rightarrow> int64 \<Rightarrow> byte list" where
  "host_image h x = ByteOrder_AppendInt64 h [] x"

definition init :: "ByteOrder \<Rightarrow> ByteOrder" where
  "init h = (let p2 = host_image h 0x1234 in if p2 ! 0 = 0 then BigEndian else LittleEndian)"

section \<open>Package bson: the document builder (bson.go)\<close>

text \<open>
  A panic is a value: every builder operation returns \<open>panic + result\<close>, \<open>Inl\<close> being the
  abort. The run-time panics of Go (index and slice bounds) are panics of the model too.
\<close>

datatype panic =
    PanicBsonFinished
  | PanicInChildBson
  | PanicNotInChildBson
  | PanicNotInChildArray
  | PanicChildBsonNotFinished
  | PanicChildArrayNotFinished
  | PanicBinaryIsNull
  | PanicInvalidObjectId
  | PanicNoUint64Type
  | PanicInvalidOrderKey
  | PanicCantAppend string
  | PanicBsonUnfinished
  | PanicIndexOutOfRange
  | PanicSliceBoundsOutOfRange
  | PanicNilPointer
  | PanicOther string

definition seq :: "panic + 'a \<Rightarrow> ('a \<Rightarrow> panic + 'b) \<Rightarrow> panic + 'b" where
  "seq m f = (case m of Inl p \<Rightarrow> Inl p | Inr x \<Rightarrow> f x)"

text \<open>
  The struct \<open>Bson\<close>. The pointer \<open>child\<close> is \<open>None\<close> when nil. The handle that
  \<open>AppendBsonStart\<close> returns and the parent's \<open>child\<close> field point to the same object, so
  in the model the open child lives in the parent's \<open>child\<close> field and the caller's
  operations on the handle are applied there (\<open>on_child\<close>).
\<close>

datatype Bson = MkBson (raw: "byte list") (offset: nat) (child: "Bson option")
  (inChild: bool) (finished: bool)

definition set_raw :: "Bson \<Rightarrow> byte list \<Rightarrow> Bson" where
  "set_raw b r = MkBson r (offset b) (child b) (inChild b) (finished b)"

definition set_finished :: "Bson \<Rightarrow> bool \<Rightarrow> Bson" where
  "set_finished b f = MkBson (raw b) (offset b) (child b) (inChild b) f"

definition set_child :: "Bson \<Rightarrow> Bson option \<Rightarrow> bool \<Rightarrow> Bson" where
  "set_child b c i = MkBson (raw b) (offset b) c i (finished b)"

definition on_child :: "(Bson \<Rightarrow> panic + Bson) \<Rightarrow> Bson \<Rightarrow> panic + Bson" where
  "on_child f b =
     (case child b of None \<Rightarrow> Inl PanicNilPointer
      | Some c \<Rightarrow> seq (f c) (\<lambda>c'. Inr (set_child b (Some c') (inChild b))))"

definition eod :: byte where
  "eod = 0x00"

definition reserveInt32 :: "Bson \<Rightarrow> nat \<times> Bson" where
  "reserveInt32 b = (let pos = length (raw b) in (pos, set_raw b (raw b @ [0, 0, 0, 0])))"

text \<open>
  \<open>v >> k\<close> on an \<open>int32\<close> is the arithmetic shift. An index beyond the slice panics; the
  first of the four stores that fails aborts the call, so the four are checked together.
\<close>

definition setInt32 :: "Bson \<Rightarrow> nat \<Rightarrow> int32 \<Rightarrow> panic + Bson" where
  "setInt32 b pos v =
     (if pos + 3 < length (raw b)
      then Inr (set_raw b ((raw b)[pos + 0 := ucast v,
                                   pos + 1 := ucast (signed_drop_bit 8 v),
                                   pos + 2 := ucast (signed_drop_bit 16 v),
                                   pos + 3 := ucast (signed_drop_bit 24 v)]))
      else Inl PanicIndexOutOfRange)"

definition appendType :: "Bson \<Rightarrow> byte \<Rightarrow> Bson" where
  "appendType b t = set_raw b (raw b @ [t])"

definition appendCString :: "Bson \<Rightarrow> string \<Rightarrow> Bson" where
  "appendCString b v = (let eos = (0x00 :: byte) in set_raw b ((raw b @ bytes_of v) @ [eos]))"

definition appendBytes :: "Bson \<Rightarrow> byte list \<Rightarrow> Bson" where
  "appendBytes b v = set_raw b (raw b @ v)"

definition appendInt32 :: "Bson \<Rightarrow> int32 \<Rightarrow> Bson" where
  "appendInt32 b v =
     (let u = v in set_raw b (raw b @
        [ucast u, ucast (drop_bit 8 u), ucast (drop_bit 16 u), ucast (drop_bit 24 u)]))"

definition appendInt64 :: "Bson \<Rightarrow> int64 \<Rightarrow> Bson" where
  "appendInt64 b v =
     (let u = v in set_raw b (raw b @
        [ucast u, ucast (drop_bit 8 u), ucast (drop_bit 16 u), ucast (drop_bit 24 u),
         ucast (drop_bit 32 u), ucast (drop_bit 40 u), ucast (drop_bit 48 u), ucast (drop_bit 56 u)]))"

definition appendFloat64 :: "Bson \<Rightarrow> float64 \<Rightarrow> Bson" where
  "appendFloat64 b v = (let u = Float64bits v in appendInt64 b u)"

definition NewBson :: Bson where
  "NewBson = snd (reserveInt32 (MkBson [] 0 None False False))"

definition NewBsonWithRaw :: "byte list \<Rightarrow> Bson" where
  "NewBsonWithRaw r = MkBson r 0 None False True"

definition checkBeforeAppend :: "Bson \<Rightarrow> panic + unit" where
  "checkBeforeAppend b =
     (if finished b then Inl PanicBsonFinished
      else if inChild b then Inl PanicInChildBson
      else Inr ())"

definition Finish :: "Bson \<Rightarrow> panic + Bson" where
  "Finish b =
     seq (checkBeforeAppend b) (\<lambda>_.
       let b1 = set_raw b (raw b @ [eod]) in
       seq (setInt32 b1 (offset b1) (word_of_int (int (length (raw b1)) - int (offset b1))))
         (\<lambda>b2. Inr (set_finished b2 True)))"

definition Raw :: "Bson \<Rightarrow> panic + byte list" where
  "Raw b =
     (if offset b \<le> length (raw b) then Inr (drop (offset b) (raw b))
      else Inl PanicSliceBoundsOutOfRange)"

subsection \<open>Type tags\<close>

text \<open>
  Modelled from the spec: the constants \<open>BsonTypeFloat64\<close> ... \<open>BsonTypeMaxKey\<close> are
  declared outside the source files at hand; their values are the tags of the table of
  section 3.1 of the specification.
\<close>

definition BsonTypeEOD :: byte where "BsonTypeEOD = 0x00"
definition BsonTypeFloat64 :: byte where "BsonTypeFloat64 = 0x01"
definition BsonTypeString :: byte where "BsonTypeString = 0x02"
definition BsonTypeBson :: byte where "BsonTypeBson = 0x03"
definition BsonTypeArray :: byte where "BsonTypeArray = 0x04"
definition BsonTypeBinary :: byte where "BsonTypeBinary = 0x05"
definition BsonTypeObjectId :: byte where "BsonTypeObjectId = 0x07"
definition BsonTypeBool :: byte where "BsonTypeBool = 0x08"
definition BsonTypeDate :: byte where "BsonTypeDate = 0x09"
definition BsonTypeNull :: byte where "BsonTypeNull = 0x0A"
definition BsonTypeRegEx :: byte where "BsonTypeRegEx = 0x0B"
definition BsonTypeInt32 :: byte where "BsonTypeInt32 = 0x10"
definition BsonTypeTimestamp :: byte where "BsonTypeTimestamp = 0x11"
definition BsonTypeInt64 :: byte where "BsonTypeInt64 = 0x12"
definition BsonTypeMinKey :: byte where "BsonTypeMinKey = 0xFF"
definition BsonTypeMaxKey :: byte where "BsonTypeMaxKey = 0x7F"

subsection \<open>Value types of the append operations\<close>

text \<open>
  The field types follow their uses in bson.go: \<open>Binary.Data\<close> is a slice that may be
  nil, \<open>Binary.Subtype\<close> converts to a byte, the two fields of \<open>Timestamp\<close> are passed to
  \<open>appendInt32\<close>, \<open>Date\<close> converts to \<open>int64\<close>, \<open>ObjectId\<close> converts to \<open>[]byte\<close>.
\<close>

record Binary =
  Subtype :: byte
  Data :: "byte list option"

record RegEx =
  Pattern :: string
  Options :: string

record Timestamp =
  Increment :: int32
  Second :: int32

type_synonym Date = int64
type_synonym ObjectId = "byte list"

text \<open>
  A pointer argument of a method (\<open>*Bson\<close>, \<open>*BsonArray\<close>) is nil, or points to the
  receiver of the call itself, or to another object. The three are kept apart because a
  nil pointer panics when it is dereferenced, and because a method that has appended to
  the receiver reads the appended bytes back through a pointer to the receiver.
\<close>

datatype 'a pointer = Null | Receiver | Object 'a

text \<open>
  Modelled from the spec: the type \<open>orderKey\<close> and its values \<open>MinKey\<close> and \<open>MaxKey\<close> are
  declared outside the source files at hand. They are the "sentinel singletons"; "any
  other sentinel value" is a third value of the type.
\<close>

datatype orderKey = MinKey | MaxKey | OtherOrderKey

subsection \<open>Typed append operations\<close>

definition AppendFloat64 :: "Bson \<Rightarrow> string \<Rightarrow> float64 \<Rightarrow> panic + Bson" where
  "AppendFloat64 b name v =
     seq (checkBeforeAppend b) (\<lambda>_.
       Inr (appendFloat64 (appendCString (appendType b BsonTypeFloat64) name) v))"

definition AppendString :: "Bson \<Rightarrow> string \<Rightarrow> string \<Rightarrow> panic + Bson" where
  "AppendString b name v =
     seq (checkBeforeAppend b) (\<lambda>_.
       Inr (appendCString
             (appendInt32 (appendCString (appendType b BsonTypeString) name)
                (word_of_int (int (length (bytes_of v)) + 1)))
             v))"

text \<open>
  \<open>value.Raw()\<close> is evaluated after the tag and the name are appended: a nil \<open>value\<close>
  panics there, and a \<open>value\<close> that is the receiver yields the buffer with tag and name.
\<close>

definition AppendBson :: "Bson \<Rightarrow> string \<Rightarrow> Bson pointer \<Rightarrow> panic + Bson" where
  "AppendBson b name v =
     seq (checkBeforeAppend b) (\<lambda>_.
       let b1 = appendCString (appendType b BsonTypeBson) name in
       case v of
         Null \<Rightarrow> Inl PanicNilPointer
       | Receiver \<Rightarrow> seq (Raw b1) (\<lambda>r. Inr (appendBytes b1 r))
       | Object d \<Rightarrow> seq (Raw d) (\<lambda>r. Inr (appendBytes b1 r)))"

definition AppendBsonStart :: "Bson \<Rightarrow> string \<Rightarrow> panic + Bson" where
  "AppendBsonStart b name =
     seq (checkBeforeAppend b) (\<lambda>_.
       let b1 = appendCString (appendType b BsonTypeBson) name;
           c = snd (reserveInt32 (MkBson (raw b1) (length (raw b1)) None False False))
       in Inr (set_child b1 (Some c) True))"

text \<open>
  \<open>bson.child.raw[len(bson.child.raw)-1]\<close> dereferences the pointer and indexes the
  slice: a nil child and an empty buffer are run-time panics.
\<close>

definition AppendBsonEnd :: "Bson \<Rightarrow> panic + Bson" where
  "AppendBsonEnd b =
     (if \<not> inChild b then Inl PanicNotInChildBson
      else if finished b then Inl PanicBsonFinished
      else case child b of None \<Rightarrow> Inl PanicNilPointer
        | Some c \<Rightarrow>
           if raw c = [] then Inl PanicIndexOutOfRange
           else if last (raw c) \<noteq> eod then Inl PanicChildBsonNotFinished
           else Inr (set_child (set_raw b (raw c)) None False))"

text \<open>
  Modelled from the spec: the type \<open>BsonArray\<close> and its methods \<open>Raw\<close> and \<open>Finish\<close> are
  declared outside the source files at hand. The struct has the field \<open>bson\<close> that bson.go
  initialises; the array builder is "a thin specialization of the document builder" that
  "maintains an incrementing decimal index as the element name for each append". So the
  struct has the builder and the index, which starts at zero, and \<open>Raw\<close> and \<open>Finish\<close>
  are those of the builder.
\<close>

datatype BsonArray = MkBsonArray (bson: Bson) (index: nat)

definition BsonArray_Raw :: "BsonArray \<Rightarrow> panic + byte list" where
  "BsonArray_Raw a = Raw (bson a)"

definition BsonArray_Finish :: "BsonArray \<Rightarrow> panic + BsonArray" where
  "BsonArray_Finish a = seq (Finish (bson a)) (\<lambda>b. Inr (MkBsonArray b (index a)))"

text \<open>
  As for \<open>AppendBson\<close>, \<open>value.Raw()\<close> is evaluated after the tag and the name are
  appended; \<open>Receiver\<close> is an array whose builder is the receiver.
\<close>

definition AppendArray :: "Bson \<Rightarrow> string \<Rightarrow> BsonArray pointer \<Rightarrow> panic + Bson" where
  "AppendArray b name v =
     seq (checkBeforeAppend b) (\<lambda>_.
       let b1 = appendCString (appendType b BsonTypeArray) name in
       case v of
         Null \<Rightarrow> Inl PanicNilPointer
       | Receiver \<Rightarrow> seq (BsonArray_Raw (MkBsonArray b1 0)) (\<lambda>r. Inr (appendBytes b1 r))
       | Object a \<Rightarrow> seq (BsonArray_Raw a) (\<lambda>r. Inr (appendBytes b1 r)))"

definition AppendArrayStart :: "Bson \<Rightarrow> string \<Rightarrow> panic + Bson" where
  "AppendArrayStart b name =
     seq (checkBeforeAppend b) (\<lambda>_.
       let b1 = appendCString (appendType b BsonTypeArray) name;
           c = MkBsonArray (snd (reserveInt32 (MkBson (raw b1) (length (raw b1)) None False False))) 0
       in Inr (set_child b1 (Some (bson c)) True))"

definition AppendArrayEnd :: "Bson \<Rightarrow> panic + Bson" where
  "AppendArrayEnd b =
     (if \<not> inChild b then Inl PanicNotInChildArray
      else if finished b then Inl PanicBsonFinished
      else case child b of None \<Rightarrow> Inl PanicNilPointer
        | Some c \<Rightarrow>
           if raw c = [] then Inl PanicIndexOutOfRange
           else if last (raw c) \<noteq> eod then Inl PanicChildArrayNotFinished
           else Inr (set_child (set_raw b (raw c)) None False))"

definition AppendBinary :: "Bson \<Rightarrow> string \<Rightarrow> Binary \<Rightarrow> panic + Bson" where
  "AppendBinary b name v =
     seq (checkBeforeAppend b) (\<lambda>_.
       case Data v of None \<Rightarrow> Inl PanicBinaryIsNull
       | Some d \<Rightarrow>
           Inr (appendBytes
                 (appendBytes
                   (appendInt32 (appendCString (appendType b BsonTypeBinary) name)
                      (word_of_int (int (length d))))
                   [Subtype v])
                 d))"

text \<open>
  The method \<open>ObjectId.IsValid\<close> is declared outside the source files at hand; it is the
  argument \<open>IsValid\<close>.
\<close>

definition AppendObjectId :: "(ObjectId \<Rightarrow> bool) \<Rightarrow> Bson \<Rightarrow> string \<Rightarrow> ObjectId \<Rightarrow> panic + Bson" where
  "AppendObjectId IsValid b name v =
     seq (checkBeforeAppend b) (\<lambda>_.
       if \<not> IsValid v then Inl PanicInvalidObjectId
       else Inr (appendBytes (appendCString (appendType b BsonTypeObjectId) name) v))"

definition AppendBool :: "Bson \<Rightarrow> string \<Rightarrow> bool \<Rightarrow> panic + Bson" where
  "AppendBool b name v =
     seq (checkBeforeAppend b) (\<lambda>_.
       let b1 = appendCString (appendType b BsonTypeBool) name in
       if v then Inr (appendBytes b1 [1]) else Inr (appendBytes b1 [0]))"

definition AppendDate :: "Bson \<Rightarrow> string \<Rightarrow> Date \<Rightarrow> panic + Bson" where
  "AppendDate b name v =
     seq (checkBeforeAppend b) (\<lambda>_.
       Inr (appendInt64 (appendCString (appendType b BsonTypeDate) name) v))"

definition AppendNull :: "Bson \<Rightarrow> string \<Rightarrow> panic + Bson" where
  "AppendNull b name =
     seq (checkBeforeAppend b) (\<lambda>_.
       Inr (appendCString (appendType b BsonTypeNull) name))"

definition AppendRegex :: "Bson \<Rightarrow> string \<Rightarrow> RegEx \<Rightarrow> panic + Bson" where
  "AppendRegex b name v =
     seq (checkBeforeAppend b) (\<lambda>_.
       Inr (appendCString
             (appendCString (appendCString (appendType b BsonTypeRegEx) name) (Pattern v))
             (Options v)))"

definition AppendInt32 :: "Bson \<Rightarrow> string \<Rightarrow> int32 \<Rightarrow> panic + Bson" where
  "AppendInt32 b name v =
     seq (checkBeforeAppend b) (\<lambda>_.
       Inr (appendInt32 (appendCString (appendType b BsonTypeInt32) name) v))"

definition AppendTimestamp :: "Bson \<Rightarrow> string \<Rightarrow> Timestamp \<Rightarrow> panic + Bson" where
  "AppendTimestamp b name v =
     seq (checkBeforeAppend b) (\<lambda>_.
       Inr (appendInt32
             (appendInt32 (appendCString (appendType b BsonTypeTimestamp) name) (Increment v))
             (Second v)))"

definition AppendInt64 :: "Bson \<Rightarrow> string \<Rightarrow> int64 \<Rightarrow> panic + Bson" where
  "AppendInt64 b name v =
     seq (checkBeforeAppend b) (\<lambda>_.
       Inr (appendInt64 (appendCString (appendType b BsonTypeInt64) name) v))"

definition AppendMinKey :: "Bson \<Rightarrow> string \<Rightarrow> panic + Bson" where
  "AppendMinKey b name =
     seq (checkBeforeAppend b) (\<lambda>_.
       Inr (appendCString (appendType b BsonTypeMinKey) name))"

definition AppendMaxKey :: "Bson \<Rightarrow> string \<Rightarrow> panic + Bson" where
  "AppendMaxKey b name =
     seq (checkBeforeAppend b) (\<lambda>_.
       Inr (appendCString (appendType b BsonTypeMaxKey) name))"

subsection \<open>The generic append\<close>

text \<open>
  The dynamically typed argument of \<open>Append\<close> is a tagged union with one constructor per
  case of the type switch and of the switch on the reflected kind in its default case.
  \<^item> \<open>VFloat32\<close> carries the \<open>float64\<close> that the conversion \<open>float64(value)\<close> yields.
  \<^item> \<open>VPtr\<close> is a pointer: \<open>None\<close> when nil, otherwise what it points to.
  \<^item> \<open>VMapKind\<close> is a value of kind \<open>reflect.Map\<close>: its entries, each key as
    \<open>k.String()\<close>, in the order in which \<open>v.MapKeys()\<close> lists them.
  \<^item> \<open>VSlice\<close> is a value of kind \<open>reflect.Array\<close> or \<open>reflect.Slice\<close>: its elements.
  \<^item> \<open>VOther\<close> is a value of any other dynamic type (complex numbers, channels,
    functions, unsafe pointers, named scalar types); it carries the name of the type.

  Modelled from the spec: the types \<open>Map\<close> and \<open>Doc\<close> with their methods \<open>toBson\<close>, the
  function \<open>structToBson\<close> and the method \<open>BsonArray.Append\<close> are declared outside the
  source files at hand. A map-shaped value is appended by "recurse per entry", a
  doc-shaped value by "recurse preserving order", a struct by "enumerate fields in
  declaration order, recurse per field using the field's declared name as the element
  name", and an element of an array under the array's "incrementing decimal index as the
  element name". So \<open>VMap\<close>, \<open>VDoc\<close> and \<open>VStruct\<close> carry their entries in the order in
  which they are appended, \<open>toBson\<close> and \<open>structToBson\<close> are \<open>AppendEntries\<close>, and
  \<open>BsonArray.Append\<close> is a step of \<open>AppendElems\<close>.
\<close>

datatype val =
    VFloat32 float64
  | VFloat64 float64
  | VInt8 int8
  | VInt16 int16
  | VInt32 int32
  | VInt64 int64
  | VUint8 byte
  | VUint16 uint16
  | VUint32 uint32
  | VUint64 uint64
  | VInt int64
  | VUint uint64
  | VUintptr uint64
  | VBool bool
  | VString string
  | VNil
  | VObjectId ObjectId
  | VDate Date
  | VRegEx RegEx
  | VTimestamp Timestamp
  | VBinary Binary
  | VOrderKey orderKey
  | VMap "(string \<times> val) list"
  | VDoc "(string \<times> val) list"
  | VSlice "val list"
  | VMapKind "(string \<times> val) list"
  | VPtr "val option"
  | VStruct "(string \<times> val) list"
  | VOther string

text \<open>\<open>strconv.Itoa\<close> of an index, which is never negative.\<close>

fun itoa :: "nat \<Rightarrow> string" where
  "itoa n = (if n < 10 then [char_of (48 + n)] else itoa (n div 10) @ [char_of (48 + n mod 10)])"

declare itoa.simps [simp del]

definition MinInt32 :: int where
  "MinInt32 = - 2147483648"

definition MaxInt32 :: int where
  "MaxInt32 = 2147483647"

definition MaxInt64 :: int where
  "MaxInt64 = 9223372036854775807"

text \<open>
  \<open>narrow\<close> is the block that the cases \<open>int64\<close>, \<open>uint64\<close>, \<open>int\<close>, \<open>uint\<close> and
  \<open>uintptr\<close> each spell out: the comparison is on the signed 64-bit value, \<open>int32(val)\<close>
  keeps the low 32 bits.
\<close>

definition narrow :: "Bson \<Rightarrow> string \<Rightarrow> int64 \<Rightarrow> panic + Bson" where
  "narrow b name v =
     (if MinInt32 \<le> sint v \<and> sint v \<le> MaxInt32
      then AppendInt32 b name (ucast v)
      else AppendInt64 b name v)"

text \<open>
  What follows the opening of a nested document or array in the container cases: the
  entries are appended to the child (which gives \<open>r\<close>), the child is finished, and the
  parent closes it. The child is the object behind the parent's \<open>child\<close> pointer.
\<close>

definition close_document :: "Bson \<Rightarrow> panic + Bson \<Rightarrow> panic + Bson" where
  "close_document b1 r =
     seq r (\<lambda>c1. seq (Finish c1) (\<lambda>c2. AppendBsonEnd (set_child b1 (Some c2) (inChild b1))))"

definition close_array :: "Bson \<Rightarrow> panic + BsonArray \<Rightarrow> panic + Bson" where
  "close_array b1 r =
     seq r (\<lambda>a1. seq (BsonArray_Finish a1) (\<lambda>a2.
       AppendArrayEnd (set_child b1 (Some (bson a2)) (inChild b1))))"

fun Append :: "(ObjectId \<Rightarrow> bool) \<Rightarrow> Bson \<Rightarrow> string \<Rightarrow> val \<Rightarrow> panic + Bson"
  and AppendEntries :: "(ObjectId \<Rightarrow> bool) \<Rightarrow> Bson \<Rightarrow> (string \<times> val) list \<Rightarrow> panic + Bson"
  and AppendElems :: "(ObjectId \<Rightarrow> bool) \<Rightarrow> BsonArray \<Rightarrow> val list \<Rightarrow> panic + BsonArray"
where
  "Append IsValid b name (VFloat32 v) = AppendFloat64 b name v"
| "Append IsValid b name (VFloat64 v) = AppendFloat64 b name v"
| "Append IsValid b name (VInt8 v) = AppendInt32 b name (scast v)"
| "Append IsValid b name (VInt16 v) = AppendInt32 b name (scast v)"
| "Append IsValid b name (VInt32 v) = AppendInt32 b name v"
| "Append IsValid b name (VInt64 v) = (let v' = v in narrow b name v')"
| "Append IsValid b name (VUint8 v) = AppendInt32 b name (ucast v)"
| "Append IsValid b name (VUint16 v) = AppendInt32 b name (ucast v)"
| "Append IsValid b name (VUint32 v) =
     (if sint v < 0 then AppendInt64 b name (ucast v) else AppendInt32 b name v)"
| "Append IsValid b name (VUint64 v) =
     (let v' = v in if sint v' < 0 then Inl PanicNoUint64Type else narrow b name v')"
| "Append IsValid b name (VInt v) = (let v' = v in narrow b name v')"
| "Append IsValid b name (VUint v) =
     (let v' = v in if sint v' < 0 then Inl PanicNoUint64Type else narrow b name v')"
| "Append IsValid b name (VUintptr v) =
     (let v' = v in if sint v' < 0 then Inl PanicNoUint64Type else narrow b name v')"
| "Append IsValid b name (VBool v) = AppendBool b name v"
| "Append IsValid b name (VString v) = AppendString b name v"
| "Append IsValid b name VNil = AppendNull b name"
| "Append IsValid b name (VObjectId v) = AppendObjectId IsValid b name v"
| "Append IsValid b name (VDate v) = AppendDate b name v"
| "Append IsValid b name (VRegEx v) = AppendRegex b name v"
| "Append IsValid b name (VTimestamp v) = AppendTimestamp b name v"
| "Append IsValid b name (VBinary v) = AppendBinary b name v"
| "Append IsValid b name (VOrderKey v) =
     (if v = MaxKey then AppendMaxKey b name
      else if v = MinKey then AppendMinKey b name
      else Inl PanicInvalidOrderKey)"
| "Append IsValid b name (VMap m) =
     (case AppendBsonStart b name of Inl p \<Rightarrow> Inl p
      | Inr b1 \<Rightarrow>
          (case child b1 of None \<Rightarrow> Inl PanicNilPointer
           | Some c \<Rightarrow> close_document b1 (AppendEntries IsValid c m)))"
| "Append IsValid b name (VDoc d) =
     (case AppendBsonStart b name of Inl p \<Rightarrow> Inl p
      | Inr b1 \<Rightarrow>
          (case child b1 of None \<Rightarrow> Inl PanicNilPointer
           | Some c \<Rightarrow> close_document b1 (AppendEntries IsValid c d)))"
| "Append IsValid b name (VSlice vs) =
     (case AppendArrayStart b name of Inl p \<Rightarrow> Inl p
      | Inr b1 \<Rightarrow>
          (case child b1 of None \<Rightarrow> Inl PanicNilPointer
           | Some c \<Rightarrow> close_array b1 (AppendElems IsValid (MkBsonArray c 0) vs)))"
| "Append IsValid b name (VMapKind kvs) =
     (case AppendBsonStart b name of Inl p \<Rightarrow> Inl p
      | Inr b1 \<Rightarrow>
          (case child b1 of None \<Rightarrow> Inl PanicNilPointer
           | Some c \<Rightarrow> close_document b1 (AppendEntries IsValid c kvs)))"
| "Append IsValid b name (VPtr None) = AppendNull b name"
| "Append IsValid b name (VPtr (Some v)) = Append IsValid b name v"
| "Append IsValid b name (VStruct fs) =
     (case AppendBsonStart b name of Inl p \<Rightarrow> Inl p
      | Inr b1 \<Rightarrow>
          (case child b1 of None \<Rightarrow> Inl PanicNilPointer
           | Some c \<Rightarrow> close_document b1 (AppendEntries IsValid c fs)))"
| "Append IsValid b name (VOther t) = Inl (PanicCantAppend t)"
| "AppendEntries IsValid c [] = Inr c"
| "AppendEntries IsValid c ((k, v) # kvs) =
     (case Append IsValid c k v of Inl p \<Rightarrow> Inl p
      | Inr c' \<Rightarrow> AppendEntries IsValid c' kvs)"
| "AppendElems IsValid a [] = Inr a"
| "AppendElems IsValid a (v # vs) =
     (case Append IsValid (bson a) (itoa (index a)) v of Inl p \<Rightarrow> Inl p
      | Inr b' \<Rightarrow> AppendElems IsValid (MkBsonArray b' (Suc (index a))) vs)"

subsection \<open>Length and Validate\<close>

text \<open>
  Modelled from the spec: the helper \<open>bytesToInt32\<close> is declared outside the source files
  at hand. It parses the first four bytes "as little-endian int32"; indexing a shorter
  slice is a run-time panic.
\<close>

definition bytesToInt32 :: "byte list \<Rightarrow> panic + int32" where
  "bytesToInt32 bs =
     (if length bs < 4 then Inl PanicIndexOutOfRange
      else Inr (ucast (bs ! 0) OR push_bit 8 (ucast (bs ! 1)) OR push_bit 16 (ucast (bs ! 2))
                OR push_bit 24 (ucast (bs ! 3))))"

definition Bson_Length :: "Bson \<Rightarrow> panic + int" where
  "Bson_Length b =
     (if \<not> finished b then Inl PanicBsonUnfinished
      else if offset b \<le> length (raw b)
        then seq (bytesToInt32 (drop (offset b) (raw b))) (\<lambda>v. Inr (sint v))
        else Inl PanicSliceBoundsOutOfRange)"

datatype error =
    ErrUnfinishedBson
  | ErrInvalidBsonLength
  | ErrInvalidBson panic
  | ErrInvalidSysInfoReplySize
  | ErrInvalidMsgLength int32 int32
  | EOF
  | ErrUnexpectedEOF
  | ErrShortWrite

text \<open>
  The iterator is declared outside the source files at hand. The loop
  \<open>for it.Next() { it.Name(); it.Value() }\<close> has no effect on the document and no result;
  all that \<open>Validate\<close> sees of it is whether it panics, which is the argument \<open>iterate\<close>
  (\<open>Some p\<close>: it panics with \<open>p\<close>). \<open>Validate_body\<close> is the function body,
  \<open>Validate\<close> adds the deferred \<open>recover\<close>.
\<close>

definition Validate_body :: "(Bson \<Rightarrow> panic option) \<Rightarrow> Bson \<Rightarrow> panic + error option" where
  "Validate_body iterate b =
     (if \<not> finished b then Inr (Some ErrUnfinishedBson)
      else seq (Bson_Length b) (\<lambda>n. seq (Raw b) (\<lambda>r.
        if n \<noteq> int (length r) then Inr (Some ErrInvalidBsonLength)
        else case iterate b of Some p \<Rightarrow> Inl p | None \<Rightarrow> Inr None)))"

definition Validate :: "(Bson \<Rightarrow> panic option) \<Rightarrow> Bson \<Rightarrow> panic + error option" where
  "Validate iterate b =
     (case Validate_body iterate b of
        Inl r \<Rightarrow> Inr (Some (ErrInvalidBson r))
      | Inr err \<Rightarrow> Inr err)"

section \<open>Package sdb: wire messages\<close>

subsection \<open>Streams and byte order of the standard library\<close>

text \<open>
  An \<open>io.Reader\<close> is the sequence of bytes still to come. \<open>io.ReadFull\<close> fills a buffer
  of \<open>n\<close> bytes or fails: with \<open>EOF\<close> when no byte was left, with \<open>ErrUnexpectedEOF\<close>
  when the stream ends inside the buffer. It returns the error, the buffer and the rest
  of the stream.
\<close>

type_synonym Reader = "byte list"

definition ReadFull :: "Reader \<Rightarrow> nat \<Rightarrow> error option \<times> byte list \<times> Reader" where
  "ReadFull r n =
     (if n \<le> length r then (None, take n r, drop n r)
      else (Some (if r = [] then EOF else ErrUnexpectedEOF), r @ replicate (n - length r) 0, []))"

text \<open>
  An \<open>io.Writer\<close> is a sink that has taken the bytes \<open>written\<close> and has \<open>room\<close> for
  some more; a write that does not fit takes what fits and fails, so every write of an
  encoder can fail. Encoders return \<open>panic + (error option \<times> Writer)\<close>;
  \<open>andThen\<close> is the statement \<open>if err := ...; err != nil { return err }\<close>.
\<close>

record Writer =
  written :: "byte list"
  room :: nat

type_synonym wres = "panic + (error option \<times> Writer)"

definition Write :: "Writer \<Rightarrow> byte list \<Rightarrow> wres" where
  "Write w p =
     (if length p \<le> room w
      then Inr (None, w\<lparr>written := written w @ p, room := room w - length p\<rparr>)
      else Inr (Some ErrShortWrite, w\<lparr>written := written w @ take (room w) p, room := 0\<rparr>))"

definition andThen :: "wres \<Rightarrow> (Writer \<Rightarrow> wres) \<Rightarrow> wres" where
  "andThen m f =
     (case m of Inl p \<Rightarrow> Inl p
      | Inr (Some err, w) \<Rightarrow> Inr (Some err, w)
      | Inr (None, w) \<Rightarrow> f w)"

text \<open>
  \<open>encoding/binary\<close>: \<open>order.PutUint32(buf[off:], v)\<close> stores four bytes at \<open>off\<close>,
  \<open>order.Uint32(buf[off:])\<close> reads them. The buffers of msg.go are arrays of the size
  that their stores need, so no store is out of range.
\<close>

datatype binary_ByteOrder = binary_LittleEndian | binary_BigEndian


definition PutUint32 :: "binary_ByteOrder \<Rightarrow> byte list \<Rightarrow> nat \<Rightarrow> uint32 \<Rightarrow> byte list" where
  "PutUint32 order b off v =
     (case order of
        binary_LittleEndian \<Rightarrow>
          b[off := ucast v, off + 1 := ucast (drop_bit 8 v), off + 2 := ucast (drop_bit 16 v),
            off + 3 := ucast (drop_bit 24 v)]
      | binary_BigEndian \<Rightarrow>
          b[off := ucast (drop_bit 24 v), off + 1 := ucast (drop_bit 16 v),
            off + 2 := ucast (drop_bit 8 v), off + 3 := ucast v])"


definition Uint32 :: "binary_ByteOrder \<Rightarrow> byte list \<Rightarrow> nat \<Rightarrow> uint32" where
  "Uint32 order b off =
     (case order of
        binary_LittleEndian \<Rightarrow>
          ucast (b ! off) OR push_bit 8 (ucast (b ! (off + 1)))
            OR push_bit 16 (ucast (b ! (off + 2))) OR push_bit 24 (ucast (b ! (off + 3)))
      | binary_BigEndian \<Rightarrow>
          ucast (b ! (off + 3)) OR push_bit 8 (ucast (b ! (off + 2)))
            OR push_bit 16 (ucast (b ! (off + 1))) OR push_bit 24 (ucast (b ! off)))"

definition Uint64 :: "binary_ByteOrder \<Rightarrow> byte list \<Rightarrow> nat \<Rightarrow> uint64" where
  "Uint64 order b off =
     (case order of
        binary_LittleEndian \<Rightarrow>
          ucast (b ! off) OR push_bit 8 (ucast (b ! (off + 1)))
            OR push_bit 16 (ucast (b ! (off + 2))) OR push_bit 24 (ucast (b ! (off + 3)))
            OR push_bit 32 (ucast (b ! (off + 4))) OR push_bit 40 (ucast (b ! (off + 5)))
            OR push_bit 48 (ucast (b ! (off + 6))) OR push_bit 56 (ucast (b ! (off + 7)))
      | binary_BigEndian \<Rightarrow>
          ucast (b ! (off + 7)) OR push_bit 8 (ucast (b ! (off + 6)))
            OR push_bit 16 (ucast (b ! (off + 5))) OR push_bit 24 (ucast (b ! (off + 4)))
            OR push_bit 32 (ucast (b ! (off + 3))) OR push_bit 40 (ucast (b ! (off + 2)))
            OR push_bit 48 (ucast (b ! (off + 1))) OR push_bit 56 (ucast (b ! off)))"

subsection \<open>The system-info reply\<close>

text \<open>
  A struct that embeds another is a record that extends it; the methods of the embedded
  struct work on every extension. Fields of the same name in different structs carry the
  struct's name in front.
\<close>

record SysInfoMsgHeader =
  Special :: uint32
  EyeCatcher :: uint32
  SysInfo_Length :: int32

definition sysInfoMsgHeaderSize :: int32 where
  "sysInfoMsgHeaderSize = 12"

definition SysInfoMsgHeader_Encode ::
  "Writer \<Rightarrow> 'a SysInfoMsgHeader_scheme \<Rightarrow> binary_ByteOrder \<Rightarrow> wres" where
  "SysInfoMsgHeader_Encode w m order =
     (let buf = replicate 12 0;
          buf = PutUint32 order buf 0 (Special m);
          buf = PutUint32 order buf 4 (EyeCatcher m);
          buf = PutUint32 order buf 8 (SysInfo_Length m)
      in Write w buf)"

definition SysInfoMsgHeader_Decode ::
  "'a SysInfoMsgHeader_scheme \<Rightarrow> Reader \<Rightarrow> binary_ByteOrder
    \<Rightarrow> error option \<times> 'a SysInfoMsgHeader_scheme \<times> Reader" where
  "SysInfoMsgHeader_Decode m r order =
     (case ReadFull r 12 of
        (Some err, buf, r1) \<Rightarrow> (Some err, m, r1)
      | (None, buf, r1) \<Rightarrow>
          (None,
           m\<lparr>Special := Uint32 order buf 0, EyeCatcher := Uint32 order buf 4,
             SysInfo_Length := Uint32 order buf 8\<rparr>,
           r1))"

record SysInfoReply = SysInfoMsgHeader +
  OSType :: int32

definition sysInfoReplySize :: int32 where
  "sysInfoReplySize = 128"

definition SysInfoReply_Encode :: "Writer \<Rightarrow> SysInfoReply \<Rightarrow> binary_ByteOrder \<Rightarrow> wres" where
  "SysInfoReply_Encode w m order =
     andThen (SysInfoMsgHeader_Encode w m order) (\<lambda>w.
       let buf = replicate (unat (sysInfoReplySize - sysInfoMsgHeaderSize)) 0;
           buf = PutUint32 order buf 0 (OSType m)
       in Write w buf)"

definition SysInfoReply_Decode ::
  "SysInfoReply \<Rightarrow> Reader \<Rightarrow> binary_ByteOrder \<Rightarrow> error option \<times> SysInfoReply \<times> Reader" where
  "SysInfoReply_Decode m r order =
     (case SysInfoMsgHeader_Decode m r order of
        (Some err, m1, r1) \<Rightarrow> (Some err, m1, r1)
      | (None, m1, r1) \<Rightarrow>
          if SysInfo_Length m1 \<noteq> sysInfoReplySize
          then (Some ErrInvalidSysInfoReplySize, m1, r1)
          else (case ReadFull r1 (unat (sysInfoReplySize - sysInfoMsgHeaderSize)) of
                  (Some err, buf, r2) \<Rightarrow> (Some err, m1, r2)
                | (None, buf, r2) \<Rightarrow> (None, m1\<lparr>OSType := Uint32 order buf 0\<rparr>, r2)))"

subsection \<open>The operation header and the reply\<close>

record MsgHeader =
  Length :: int32
  OpCode :: uint32
  Tid :: uint32
  RouteId :: uint64
  RequestId :: uint64

definition msgHeaderSize :: int32 where
  "msgHeaderSize = 28"

definition MsgHeader_Size :: "'a MsgHeader_scheme \<Rightarrow> int32" where
  "MsgHeader_Size m = msgHeaderSize"


definition MsgHeader_Decode ::
  "'a MsgHeader_scheme \<Rightarrow> Reader \<Rightarrow> binary_ByteOrder
    \<Rightarrow> error option \<times> 'a MsgHeader_scheme \<times> Reader" where
  "MsgHeader_Decode m r order =
     (case ReadFull r (unat msgHeaderSize) of
        (Some err, buf, r1) \<Rightarrow> (Some err, m, r1)
      | (None, buf, r1) \<Rightarrow>
          (None,
           m\<lparr>Length := Uint32 order buf 0, OpCode := Uint32 order buf 4,
             Tid := Uint32 order buf 8, RouteId := Uint64 order buf 12,
             RequestId := Uint64 order buf 20\<rparr>,
           r1))"

record ReplyMsg = MsgHeader +
  ContextId :: int64
  Reply_Flags :: int32
  StartFrom :: int32
  Reply_ReturnNum :: int32
  Error :: string

definition ReplyMsg_Size :: "ReplyMsg \<Rightarrow> int32" where
  "ReplyMsg_Size m = MsgHeader_Size m + 20"

text \<open>
  \<open>bson.NewBson(buf).String()\<close> belongs to the package \<open>bson\<close> that msg.go imports, with the
  iterator behind it; it is the argument \<open>NewBson_String\<close>, which renders the bytes or
  panics.
\<close>

definition ReplyMsg_Decode ::
  "(byte list \<Rightarrow> panic + string) \<Rightarrow> ReplyMsg \<Rightarrow> Reader \<Rightarrow> binary_ByteOrder
    \<Rightarrow> panic + (error option \<times> ReplyMsg \<times> Reader)" where
  "ReplyMsg_Decode NewBson_String m r order =
     (case MsgHeader_Decode m r order of
        (Some err, m1, r1) \<Rightarrow> Inr (Some err, m1, r1)
      | (None, m1, r1) \<Rightarrow>
          if sint (Length m1) < sint (ReplyMsg_Size m1)
          then Inr (Some (ErrInvalidMsgLength (ReplyMsg_Size m1) (Length m1)), m1, r1)
          else (case ReadFull r1 20 of
                  (Some err, buf, r2) \<Rightarrow> Inr (Some err, m1, r2)
                | (None, buf, r2) \<Rightarrow>
                    let m2 = m1\<lparr>ContextId := Uint64 order buf 0,
                               Reply_Flags := Uint32 order buf 8,
                               StartFrom := Uint32 order buf 12,
                               Reply_ReturnNum := Uint32 order buf 16\<rparr>
                    in if Reply_Flags m2 = 0 then Inr (None, m2, r2)
                       else (case ReadFull r2 (nat (sint (Length m2 - ReplyMsg_Size m2))) of
                               (Some err, buf, r3) \<Rightarrow> Inr (Some err, m2, r3)
                             | (None, buf, r3) \<Rightarrow>
                                 (case NewBson_String buf of
                                    Inl p \<Rightarrow> Inl p
                                  | Inr errInfo \<Rightarrow> Inr (None, m2\<lparr>Error := errInfo\<rparr>, r3)))))"

subsection \<open>Requests with embedded documents\<close>


text \<open>
  Modelled from the spec: the variable \<open>emptyBson\<close> is declared outside the source files
  at hand. It is "an empty document (the 5-byte \<open>{}\<close> encoding)", the finished document
  that \<open>new(); finish()\<close> builds.
\<close>

definition emptyBson :: Bson where
  "emptyBson = MkBson [0x05, 0x00, 0x00, 0x00, 0x00] 0 None False True"












section \<open>Notions of the statements\<close>

text \<open>
  The definitions of this section are not code of the repository: they are the words of
  the properties, given once so that the statements stay readable.
\<close>

text \<open>An element: type tag, name as a cstring, payload.\<close>

definition element :: "byte \<Rightarrow> string \<Rightarrow> byte list \<Rightarrow> byte list" where
  "element t name payload = t # bytes_of name @ 0x00 # payload"

text \<open>
  The element that the narrowing law prescribes for an integer of value \<open>n\<close> held in the
  64 bits \<open>v\<close>: an Int32 element when \<open>n\<close> lies in \<open>[MinInt32, MaxInt32]\<close>, an Int64
  element otherwise, the payload little-endian.
\<close>

definition narrowed :: "string \<Rightarrow> int \<Rightarrow> int64 \<Rightarrow> byte list" where
  "narrowed name n v =
     (if MinInt32 \<le> n \<and> n \<le> MaxInt32
      then element 0x10 name (littleEndian_AppendInt32 [] (ucast v))
      else element 0x12 name (littleEndian_AppendInt64 [] v))"

definition signed_kinds :: "(int64 \<Rightarrow> val) list" where
  "signed_kinds = [VInt64, VInt]"

definition unsigned_kinds :: "(uint64 \<Rightarrow> val) list" where
  "unsigned_kinds = [VUint64, VUint, VUintptr]"



text \<open>
  The append operations of a builder, one constructor per exported method that appends an
  element, and the call of each.
\<close>

datatype append_op =
    OpFloat64 string float64
  | OpString string string
  | OpBson string "Bson pointer"
  | OpBsonStart string
  | OpArray string "BsonArray pointer"
  | OpArrayStart string
  | OpBinary string Binary
  | OpObjectId string ObjectId
  | OpBool string bool
  | OpDate string Date
  | OpNull string
  | OpRegex string RegEx
  | OpInt32 string int32
  | OpTimestamp string Timestamp
  | OpInt64 string int64
  | OpMinKey string
  | OpMaxKey string
  | OpAppend string val

fun do_append :: "(ObjectId \<Rightarrow> bool) \<Rightarrow> Bson \<Rightarrow> append_op \<Rightarrow> panic + Bson" where
  "do_append IsValid b (OpFloat64 name v) = AppendFloat64 b name v"
| "do_append IsValid b (OpString name v) = AppendString b name v"
| "do_append IsValid b (OpBson name v) = AppendBson b name v"
| "do_append IsValid b (OpBsonStart name) = AppendBsonStart b name"
| "do_append IsValid b (OpArray name v) = AppendArray b name v"
| "do_append IsValid b (OpArrayStart name) = AppendArrayStart b name"
| "do_append IsValid b (OpBinary name v) = AppendBinary b name v"
| "do_append IsValid b (OpObjectId name v) = AppendObjectId IsValid b name v"
| "do_append IsValid b (OpBool name v) = AppendBool b name v"
| "do_append IsValid b (OpDate name v) = AppendDate b name v"
| "do_append IsValid b (OpNull name) = AppendNull b name"
| "do_append IsValid b (OpRegex name v) = AppendRegex b name v"
| "do_append IsValid b (OpInt32 name v) = AppendInt32 b name v"
| "do_append IsValid b (OpTimestamp name v) = AppendTimestamp b name v"
| "do_append IsValid b (OpInt64 name v) = AppendInt64 b name v"
| "do_append IsValid b (OpMinKey name) = AppendMinKey b name"
| "do_append IsValid b (OpMaxKey name) = AppendMaxKey b name"
| "do_append IsValid b (OpAppend name v) = Append IsValid b name v"

text \<open>
  The checks that the generic \<open>Append\<close> makes on its argument. A value passes when an
  unsigned 64-bit or platform-sized value does not exceed \<open>MaxInt64\<close>, the data of a
  \<open>Binary\<close> is not nil, an \<open>ObjectId\<close> is valid, an \<open>orderKey\<close> is \<open>MinKey\<close> or
  \<open>MaxKey\<close>, the dynamic type is one that \<open>Append\<close> knows, what a pointer points to
  passes, and every entry or element of a container passes.
\<close>

fun val_ok :: "(ObjectId \<Rightarrow> bool) \<Rightarrow> val \<Rightarrow> bool"
  and entries_ok :: "(ObjectId \<Rightarrow> bool) \<Rightarrow> (string \<times> val) list \<Rightarrow> bool"
  and elems_ok :: "(ObjectId \<Rightarrow> bool) \<Rightarrow> val list \<Rightarrow> bool"
where
  "val_ok IsValid (VUint64 v) = (uint v \<le> MaxInt64)"
| "val_ok IsValid (VUint v) = (uint v \<le> MaxInt64)"
| "val_ok IsValid (VUintptr v) = (uint v \<le> MaxInt64)"
| "val_ok IsValid (VObjectId v) = IsValid v"
| "val_ok IsValid (VBinary v) = (Data v \<noteq> None)"
| "val_ok IsValid (VOrderKey v) = (v \<noteq> OtherOrderKey)"
| "val_ok IsValid (VMap m) = entries_ok IsValid m"
| "val_ok IsValid (VDoc d) = entries_ok IsValid d"
| "val_ok IsValid (VSlice vs) = elems_ok IsValid vs"
| "val_ok IsValid (VMapKind kvs) = entries_ok IsValid kvs"
| "val_ok IsValid (VPtr None) = True"
| "val_ok IsValid (VPtr (Some v)) = val_ok IsValid v"
| "val_ok IsValid (VStruct fs) = entries_ok IsValid fs"
| "val_ok IsValid (VOther t) = False"
| "val_ok IsValid (VFloat32 v) = True"
| "val_ok IsValid (VFloat64 v) = True"
| "val_ok IsValid (VInt8 v) = True"
| "val_ok IsValid (VInt16 v) = True"
| "val_ok IsValid (VInt32 v) = True"
| "val_ok IsValid (VInt64 v) = True"
| "val_ok IsValid (VUint8 v) = True"
| "val_ok IsValid (VUint16 v) = True"
| "val_ok IsValid (VUint32 v) = True"
| "val_ok IsValid (VInt v) = True"
| "val_ok IsValid (VBool v) = True"
| "val_ok IsValid (VString v) = True"
| "val_ok IsValid VNil = True"
| "val_ok IsValid (VDate v) = True"
| "val_ok IsValid (VRegEx v) = True"
| "val_ok IsValid (VTimestamp v) = True"
| "entries_ok IsValid [] = True"
| "entries_ok IsValid ((k, v) # kvs) = (val_ok IsValid v \<and> entries_ok IsValid kvs)"
| "elems_ok IsValid [] = True"
| "elems_ok IsValid (v # vs) = (val_ok IsValid v \<and> elems_ok IsValid vs)"

text \<open>
  \<open>own_guard\<close> is the check that an append operation makes on its argument besides
  \<open>checkBeforeAppend\<close>: \<open>AppendBinary\<close> wants data that is not nil, \<open>AppendObjectId\<close> a
  valid identifier, \<open>AppendBson\<close> and \<open>AppendArray\<close> a value that is not nil, the generic
  \<open>Append\<close> a value that passes \<open>val_ok\<close>; the other operations make none.
\<close>

fun own_guard :: "(ObjectId \<Rightarrow> bool) \<Rightarrow> append_op \<Rightarrow> bool" where
  "own_guard IsValid (OpBinary name v) = (Data v \<noteq> None)"
| "own_guard IsValid (OpObjectId name v) = IsValid v"
| "own_guard IsValid (OpBson name v) = (v \<noteq> Null)"
| "own_guard IsValid (OpArray name v) = (v \<noteq> Null)"
| "own_guard IsValid (OpAppend name v) = val_ok IsValid v"
| "own_guard IsValid _ = True"

text \<open>
  The offset of a builder or document lies within its buffer. Every operation of the
  package that creates one sets the offset to zero or to the length of the buffer, and
  a buffer never shrinks, so the builders and documents that a program can hold are
  sound. \<open>sound_arg\<close> says it of the document or array that \<open>AppendBson\<close> or
  \<open>AppendArray\<close> is given.
\<close>

definition sound :: "Bson \<Rightarrow> bool" where
  "sound b = (offset b \<le> length (raw b))"

fun sound_arg :: "append_op \<Rightarrow> bool" where
  "sound_arg (OpBson name (Object d)) = sound d"
| "sound_arg (OpArray name (Object a)) = sound (bson a)"
| "sound_arg _ = True"

text \<open>
  A builder is ready when it is not finished and has no open child. \<open>succeeds b r\<close>: the
  call on \<open>b\<close> with outcome \<open>r\<close> returned, and left a ready builder with the same offset
  and a buffer that is not shorter.
\<close>

definition ready :: "Bson \<Rightarrow> bool" where
  "ready b = (\<not> finished b \<and> \<not> inChild b)"

definition succeeds :: "Bson \<Rightarrow> panic + Bson \<Rightarrow> bool" where
  "succeeds b r =
     (case r of Inl _ \<Rightarrow> False
      | Inr b' \<Rightarrow> ready b' \<and> offset b' = offset b \<and> length (raw b) \<le> length (raw b'))"

text \<open>
  \<open>settles ok b r\<close>: the call on \<open>b\<close> with outcome \<open>r\<close> succeeded if \<open>ok\<close> and aborted
  if not. \<open>builder_of\<close> reads the builder of an array in an outcome.
\<close>

definition settles :: "bool \<Rightarrow> Bson \<Rightarrow> panic + Bson \<Rightarrow> bool" where
  "settles ok b r = (if ok then succeeds b r else isl r)"

definition builder_of :: "panic + BsonArray \<Rightarrow> panic + Bson" where
  "builder_of r = seq r (\<lambda>a. Inr (bson a))"

















section \<open>Properties of the document builder\<close>

subsection \<open>Byte order of the payloads\<close>

lemma init_detects_host: "init BigEndian = BigEndian" "init LittleEndian = LittleEndian"
  by (simp_all add: init_def host_image_def ByteOrder_AppendInt64_def bigEndian_AppendInt64_def
      littleEndian_AppendInt64_def)

lemma builder_ignores_detected_order:
  "raw (appendInt32 b 1) \<noteq> ByteOrder_AppendInt32 (init BigEndian) (raw b) 1"
  by (simp add: init_detects_host ByteOrder_AppendInt32_def bigEndian_AppendInt32_def
      appendInt32_def set_raw_def Let_def)

text \<open>
  Claim C4. The bytes that the builder appends for an \<open>int32\<close>, an \<open>int64\<close> and a
  \<open>float64\<close> payload are the bytes that the little-endian codec appends to the same
  buffer. The builder's functions take no byte order: whatever \<open>init\<close> detected (on a
  big-endian host it is \<open>BigEndian\<close>, by \<open>init_detects_host\<close>), the document bytes are
  the little-endian ones.
\<close>

theorem C4_builder_payloads_little_endian:
  "raw (appendInt32 b v) = littleEndian_AppendInt32 (raw b) v
   \<and> raw (appendInt64 b w) = littleEndian_AppendInt64 (raw b) w
   \<and> raw (appendFloat64 b f) = littleEndian_AppendFloat64 (raw b) f"
  by (simp add: appendInt32_def appendInt64_def appendFloat64_def littleEndian_AppendInt32_def
      littleEndian_AppendInt64_def littleEndian_AppendFloat64_def set_raw_def Let_def)

subsection \<open>The scenario \<open>{"hello":"world"}\<close>\<close>

text \<open>
  Claim C3, as stated, at the document itself: the raw bytes that the builder produces
  are not the 22 bytes of the scenario, whose first byte is \<open>0x1B\<close>.
\<close>

theorem C3_hello_world_not_1B:
  "seq (seq (AppendString NewBson ''hello'' ''world'') Finish) Raw \<noteq>
     Inr [0x1B, 0x00, 0x00, 0x00, 0x02, 0x68, 0x65, 0x6C, 0x6C, 0x6F, 0x00,
          0x06, 0x00, 0x00, 0x00, 0x77, 0x6F, 0x72, 0x6C, 0x64, 0x00, 0x00]"
  by (simp add: seq_def AppendString_def NewBson_def Finish_def Raw_def checkBeforeAppend_def
      reserveInt32_def set_raw_def set_finished_def setInt32_def appendType_def appendCString_def
      appendInt32_def bytes_of_def eod_def BsonTypeString_def Let_def)

text \<open>
  Claim C3, amended. Appending the string element \<open>hello\<close> with value \<open>world\<close> to a new
  builder and finishing yields the 22 bytes of the scenario with the length prefix
  \<open>0x16\<close> (22, the number of bytes) in place of \<open>0x1B\<close>.
\<close>

theorem C3_hello_world_bytes:
  "seq (seq (AppendString NewBson ''hello'' ''world'') Finish) Raw =
     Inr [0x16, 0x00, 0x00, 0x00, 0x02, 0x68, 0x65, 0x6C, 0x6C, 0x6F, 0x00,
          0x06, 0x00, 0x00, 0x00, 0x77, 0x6F, 0x72, 0x6C, 0x64, 0x00, 0x00]"
  by (simp add: seq_def AppendString_def NewBson_def Finish_def Raw_def checkBeforeAppend_def
      reserveInt32_def set_raw_def set_finished_def setInt32_def appendType_def appendCString_def
      appendInt32_def bytes_of_def eod_def BsonTypeString_def Let_def)

subsection \<open>The narrowing law of the generic append\<close>

lemma sint_uint_if:
  "sint (w :: 'a::len word) =
     (if uint w < 2 ^ (LENGTH('a) - 1) then uint w else uint w - 2 ^ LENGTH('a))"
proof -
  define n where "n = LENGTH('a) - 1"
  have len: "LENGTH('a) = Suc n" by (simp add: n_def)
  have b: "0 \<le> uint w" "uint w < 2 * 2 ^ n"
    using uint_lt2p [of w] by (simp_all add: len)
  have s: "sint w = (uint w + 2 ^ n) mod (2 * 2 ^ n) - 2 ^ n"
    by (simp add: sint_uint signed_take_bit_eq_take_bit_shift take_bit_eq_mod len)
  show ?thesis
  proof (cases "uint w < 2 ^ n")
    case True
    then have "(uint w + 2 ^ n) mod (2 * 2 ^ n) = uint w + 2 ^ n"
      using b by (intro mod_pos_pos_trivial) simp_all
    with True show ?thesis by (simp add: s n_def)
  next
    case False
    have "(uint w + 2 ^ n) mod (2 * 2 ^ n) = ((uint w - 2 ^ n) + 2 * 2 ^ n) mod (2 * 2 ^ n)"
      by (simp add: algebra_simps)
    also have "\<dots> = (uint w - 2 ^ n) mod (2 * 2 ^ n)"
      by (rule mod_add_self2)
    also have "\<dots> = uint w - 2 ^ n"
      using b False by (intro mod_pos_pos_trivial) simp_all
    finally show ?thesis using False by (simp add: s len)
  qed
qed

lemma sint64_neg_iff: "(sint (v :: 64 word) < 0) = (MaxInt64 < uint v)"
  using uint_lt2p [of v] by (simp add: sint_uint_if MaxInt64_def)

lemma sint64_nonneg: "\<not> sint (v :: 64 word) < 0 \<Longrightarrow> sint v = uint v"
  using uint_lt2p [of v] by (simp add: sint_uint_if split: if_splits)

lemma check_ok: "\<not> finished b \<Longrightarrow> \<not> inChild b \<Longrightarrow> checkBeforeAppend b = Inr ()"
  by (simp add: checkBeforeAppend_def)

lemma check_fail: "finished b \<or> inChild b \<Longrightarrow> isl (checkBeforeAppend b)"
  by (auto simp add: checkBeforeAppend_def)

lemma AppendInt32_bytes:
  "\<not> finished b \<Longrightarrow> \<not> inChild b \<Longrightarrow>
   AppendInt32 b name v = Inr (set_raw b (raw b @ element 0x10 name (littleEndian_AppendInt32 [] v)))"
  by (simp add: AppendInt32_def check_ok seq_def appendInt32_def appendCString_def appendType_def
      set_raw_def element_def littleEndian_AppendInt32_def BsonTypeInt32_def Let_def)

lemma AppendInt64_bytes:
  "\<not> finished b \<Longrightarrow> \<not> inChild b \<Longrightarrow>
   AppendInt64 b name v = Inr (set_raw b (raw b @ element 0x12 name (littleEndian_AppendInt64 [] v)))"
  by (simp add: AppendInt64_def check_ok seq_def appendInt64_def appendCString_def appendType_def
      set_raw_def element_def littleEndian_AppendInt64_def BsonTypeInt64_def Let_def)

lemma narrow_bytes:
  "\<not> finished b \<Longrightarrow> \<not> inChild b \<Longrightarrow>
   narrow b name v = Inr (set_raw b (raw b @ narrowed name (sint v) v))"
  by (simp add: narrow_def narrowed_def AppendInt32_bytes AppendInt64_bytes)

lemma narrow_not_uint64_panic: "narrow b name v \<noteq> Inl PanicNoUint64Type"
  by (simp add: narrow_def AppendInt32_def AppendInt64_def checkBeforeAppend_def seq_def)

lemma NewBson_fresh: "\<not> finished NewBson" "\<not> inChild NewBson" "raw NewBson = [0, 0, 0, 0]"
  by (simp_all add: NewBson_def reserveInt32_def set_raw_def)

text \<open>
  Claim C1. On a builder that accepts appends (not finished, no child open), the generic
  \<open>Append\<close> of a signed 64-bit or platform-sized integer writes the Int32 element (tag
  \<open>0x10\<close>, little-endian low 32 bits) when the value lies in \<open>[MinInt32, MaxInt32]\<close> and the
  Int64 element (tag \<open>0x12\<close>) otherwise. For a \<open>uint64\<close>, \<open>uint\<close> or \<open>uintptr\<close> value,
  \<open>Append\<close> aborts with the "no uint64 type" panic exactly when the value exceeds
  \<open>MaxInt64\<close>, on every builder; a value that does not exceed it is written by the same
  rule.
\<close>

theorem C1_narrowing_law:
  assumes "\<not> finished b" and "\<not> inChild b"
  shows "(\<forall>k \<in> set signed_kinds.
            Append IsValid b name (k v) = Inr (set_raw b (raw b @ narrowed name (sint v) v)))
    \<and> (\<forall>k \<in> set unsigned_kinds.
          (Append IsValid b name (k v) = Inl PanicNoUint64Type) = (MaxInt64 < uint v)
          \<and> (uint v \<le> MaxInt64 \<longrightarrow>
               Append IsValid b name (k v) = Inr (set_raw b (raw b @ narrowed name (uint v) v))))"
  using assms
  by (auto simp add: signed_kinds_def unsigned_kinds_def narrow_bytes narrow_not_uint64_panic
      sint64_neg_iff sint64_nonneg Let_def)

theorem C1_narrowing_law_witness:
  "\<not> finished NewBson \<and> \<not> inChild NewBson
   \<and> Append (\<lambda>_. True) NewBson ''a'' (VInt 1) =
       Inr (set_raw NewBson [0, 0, 0, 0, 0x10, 0x61, 0x00, 0x01, 0x00, 0x00, 0x00])
   \<and> Append (\<lambda>_. True) NewBson ''a'' (VInt64 2147483648) =
       Inr (set_raw NewBson [0, 0, 0, 0, 0x12, 0x61, 0x00, 0x00, 0x00, 0x00, 0x80, 0x00, 0x00, 0x00, 0x00])
   \<and> Append (\<lambda>_. True) NewBson ''a'' (VUint64 0xFFFFFFFFFFFFFFFF) = Inl PanicNoUint64Type
   \<and> Append (\<lambda>_. True) NewBson ''a'' (VUint 2147483647) =
       Inr (set_raw NewBson [0, 0, 0, 0, 0x10, 0x61, 0x00, 0xFF, 0xFF, 0xFF, 0x7F])"
proof -
  have f: "\<not> finished NewBson" and c: "\<not> inChild NewBson"
    by (simp_all add: NewBson_fresh)
  have s1: "VInt \<in> set signed_kinds" and s2: "VInt64 \<in> set signed_kinds"
    and u1: "VUint64 \<in> set unsigned_kinds" and u2: "VUint \<in> set unsigned_kinds"
    by (simp_all add: signed_kinds_def unsigned_kinds_def)
  note n = narrowed_def element_def bytes_of_def littleEndian_AppendInt32_def
    littleEndian_AppendInt64_def MinInt32_def MaxInt32_def MaxInt64_def NewBson_fresh set_raw_def
  from C1_narrowing_law [OF f c, of "\<lambda>_. True" "''a''" 1, THEN conjunct1, THEN bspec, OF s1]
  have a: "Append (\<lambda>_. True) NewBson ''a'' (VInt 1) =
       Inr (set_raw NewBson [0, 0, 0, 0, 0x10, 0x61, 0x00, 0x01, 0x00, 0x00, 0x00])"
    by (simp add: n)
  from C1_narrowing_law [OF f c, of "\<lambda>_. True" "''a''" 2147483648, THEN conjunct1, THEN bspec, OF s2]
  have b: "Append (\<lambda>_. True) NewBson ''a'' (VInt64 2147483648) =
       Inr (set_raw NewBson [0, 0, 0, 0, 0x12, 0x61, 0x00, 0x00, 0x00, 0x00, 0x80, 0x00, 0x00, 0x00, 0x00])"
    by (simp add: n)
  from C1_narrowing_law [OF f c, of "\<lambda>_. True" "''a''" "0xFFFFFFFFFFFFFFFF", THEN conjunct2, THEN bspec, OF u1]
  have d: "Append (\<lambda>_. True) NewBson ''a'' (VUint64 0xFFFFFFFFFFFFFFFF) = Inl PanicNoUint64Type"
    by (simp add: n)
  from C1_narrowing_law [OF f c, of "\<lambda>_. True" "''a''" 2147483647, THEN conjunct2, THEN bspec, OF u2]
  have e: "Append (\<lambda>_. True) NewBson ''a'' (VUint 2147483647) =
       Inr (set_raw NewBson [0, 0, 0, 0, 0x10, 0x61, 0x00, 0xFF, 0xFF, 0xFF, 0x7F])"
    by (simp add: n)
  from f c a b d e show ?thesis by simp
qed

subsection \<open>The length prefix of a finished document\<close>

lemma sdb8: "(ucast (signed_drop_bit 8 (v::32 word)) :: 8 word) = ucast (drop_bit 8 v)"
  by (rule bit_word_eqI) (auto simp add: bit_simps)

lemma sdb16: "(ucast (signed_drop_bit 16 (v::32 word)) :: 8 word) = ucast (drop_bit 16 v)"
  by (rule bit_word_eqI) (auto simp add: bit_simps)

lemma sdb24: "(ucast (signed_drop_bit 24 (v::32 word)) :: 8 word) = ucast (drop_bit 24 v)"
  by (rule bit_word_eqI) (auto simp add: bit_simps)

lemma le32_roundtrip:
  "ucast (ucast w :: byte) OR push_bit 8 (ucast (ucast (drop_bit 8 w) :: byte))
     OR push_bit 16 (ucast (ucast (drop_bit 16 w) :: byte))
     OR push_bit 24 (ucast (ucast (drop_bit 24 w) :: byte)) = (w :: 32 word)"
proof (rule bit_word_eqI)
  fix n :: nat
  assume "n < LENGTH(32)"
  then have n: "n < 32" by simp
  consider "n < 8" | "8 \<le> n" "n < 16" | "16 \<le> n" "n < 24" | "24 \<le> n"
    by linarith
  then show "bit (ucast (ucast w :: byte) OR push_bit 8 (ucast (ucast (drop_bit 8 w) :: byte))
     OR push_bit 16 (ucast (ucast (drop_bit 16 w) :: byte))
     OR push_bit 24 (ucast (ucast (drop_bit 24 w) :: byte)) :: 32 word) n = bit w n"
    using n by cases (auto simp add: bit_simps)
qed

lemma setInt32_readback:
  assumes "setInt32 b pos v = Inr b'"
  shows "bytesToInt32 (drop pos (raw b')) = Inr v \<and> length (raw b') = length (raw b)
     \<and> offset b' = offset b \<and> finished b' = finished b"
proof -
  from assms have p: "pos + 3 < length (raw b)"
    by (simp add: setInt32_def split: if_splits)
  with assms show ?thesis
    by (auto simp add: setInt32_def set_raw_def bytesToInt32_def sdb8 sdb16 sdb24 le32_roundtrip
        nth_list_update)
qed


lemma Finish_unfold:
  assumes "Finish b = Inr b'"
  shows "\<not> finished b \<and> \<not> inChild b
    \<and> setInt32 (set_raw b (raw b @ [eod])) (offset b)
          (word_of_int (int (length (raw b) + 1) - int (offset b))) = Inr (set_finished b' (finished b))
    \<and> finished b'"
  using assms
  by (cases b; cases b')
     (auto simp add: Finish_def seq_def checkBeforeAppend_def Let_def set_raw_def set_finished_def
       setInt32_def split: if_splits sum.splits)

lemma Finish_shape:
  assumes "Finish b = Inr b'"
  shows "finished b' \<and> offset b' = offset b \<and> offset b + 3 \<le> length (raw b)
    \<and> length (raw b') = length (raw b) + 1
    \<and> bytesToInt32 (drop (offset b) (raw b')) =
         Inr (word_of_int (int (length (raw b) + 1) - int (offset b)))
    \<and> last (raw b') = 0x00"
proof -
  let ?b1 = "set_raw b (raw b @ [eod])"
  let ?v = "word_of_int (int (length (raw b) + 1) - int (offset b)) :: int32"
  let ?b2 = "set_finished b' (finished b)"
  from Finish_unfold [OF assms]
  have s: "setInt32 ?b1 (offset b) ?v = Inr ?b2" and f: "finished b'"
    by simp_all
  from s have p: "offset b + 3 < length (raw b) + 1"
    by (simp add: setInt32_def set_raw_def split: if_splits)
  from setInt32_readback [OF s]
  have r: "bytesToInt32 (drop (offset b) (raw b')) = Inr ?v"
    and l: "length (raw b') = length (raw b) + 1" and o: "offset b' = offset b"
    by (simp_all add: set_finished_def set_raw_def)
  have raw': "raw b' = (raw b @ [eod])[offset b + 0 := ucast ?v,
      offset b + 1 := ucast (signed_drop_bit 8 ?v),
      offset b + 2 := ucast (signed_drop_bit 16 ?v),
      offset b + 3 := ucast (signed_drop_bit 24 ?v)]"
    using s p by (cases b; cases b') (auto simp add: setInt32_def set_raw_def set_finished_def)
  have ne: "raw b' \<noteq> []" using l by (cases "raw b'") simp_all
  have "last (raw b') = raw b' ! length (raw b)"
    using l ne by (simp add: last_conv_nth)
  also have "\<dots> = 0"
  proof (cases "offset b + 3 < length (raw b)")
    case True
    then show ?thesis by (simp add: raw' eod_def nth_append)
  next
    case False
    with p have e: "length (raw b) = offset b + 3" by simp
    then have v4: "?v = 4" by simp
    show ?thesis
      unfolding raw' v4 by (simp add: e)
  qed
  finally have "last (raw b') = 0" .
  with f o p r l show ?thesis by simp
qed








subsection \<open>Preconditions of the append operations\<close>

lemma seq_Inr: "seq (Inr x) f = f x" and seq_Inl: "seq (Inl p) f = Inl p"
  by (simp_all add: seq_def)

lemma check_blocked: "finished b \<or> inChild b \<Longrightarrow> \<exists>p. checkBeforeAppend b = Inl p"
  by (auto simp add: checkBeforeAppend_def)

lemmas typed_append_defs = AppendFloat64_def AppendString_def AppendBson_def AppendBsonStart_def
  AppendArray_def AppendArrayStart_def AppendBinary_def AppendObjectId_def AppendBool_def
  AppendDate_def AppendNull_def AppendRegex_def AppendInt32_def AppendTimestamp_def
  AppendInt64_def AppendMinKey_def AppendMaxKey_def

lemmas append_defs = appendType_def appendCString_def appendBytes_def appendInt32_def
  appendInt64_def appendFloat64_def set_raw_def

text \<open>A builder that is finished or has an open child: every case of \<open>Append\<close> aborts.\<close>

lemma Append_blocked:
  assumes "checkBeforeAppend b = Inl p"
  shows "isl (Append IsValid b name v)"
proof (induction v)
  case (VPtr x)
  then show ?case
    using assms by (cases x) (simp_all add: AppendNull_def seq_Inl)
qed (simp_all add: assms typed_append_defs narrow_def seq_Inl Let_def)

lemma do_append_blocked:
  assumes "finished b \<or> inChild b"
  shows "isl (do_append IsValid b op)"
proof -
  from check_blocked [OF assms] obtain p where p: "checkBeforeAppend b = Inl p" ..
  show ?thesis
    by (cases op) (simp_all add: typed_append_defs p seq_Inl Append_blocked)
qed

text \<open>A ready builder: the typed operations return and leave a ready builder.\<close>

lemma succeeds_Inr:
  "succeeds b (Inr b') = (ready b' \<and> offset b' = offset b \<and> length (raw b) \<le> length (raw b'))"
  and succeeds_Inl: "\<not> succeeds b (Inl p)"
  by (simp_all add: succeeds_def)

lemma succeedsE:
  assumes "succeeds b r"
  obtains b' where "r = Inr b'" and "ready b'" and "offset b' = offset b"
    and "length (raw b) \<le> length (raw b')"
  using assms by (cases r) (simp_all add: succeeds_def)

lemma typed_succeeds:
  assumes "ready b"
  shows "succeeds b (AppendFloat64 b name f)"
    and "succeeds b (AppendString b name s)"
    and "succeeds b (AppendBool b name t)"
    and "succeeds b (AppendDate b name d)"
    and "succeeds b (AppendNull b name)"
    and "succeeds b (AppendRegex b name re)"
    and "succeeds b (AppendInt32 b name i)"
    and "succeeds b (AppendTimestamp b name ts)"
    and "succeeds b (AppendInt64 b name l)"
    and "succeeds b (AppendMinKey b name)"
    and "succeeds b (AppendMaxKey b name)"
    and "succeeds b (narrow b name l)"
proof -
  from assms have c: "checkBeforeAppend b = Inr ()" and f: "\<not> finished b" "\<not> inChild b"
    by (simp_all add: ready_def checkBeforeAppend_def)
  show "succeeds b (AppendFloat64 b name f)"
    and "succeeds b (AppendString b name s)"
    and "succeeds b (AppendBool b name t)"
    and "succeeds b (AppendDate b name d)"
    and "succeeds b (AppendNull b name)"
    and "succeeds b (AppendRegex b name re)"
    and "succeeds b (AppendInt32 b name i)"
    and "succeeds b (AppendTimestamp b name ts)"
    and "succeeds b (AppendInt64 b name l)"
    and "succeeds b (AppendMinKey b name)"
    and "succeeds b (AppendMaxKey b name)"
    and "succeeds b (narrow b name l)"
    by (simp_all add: typed_append_defs narrow_def c f seq_Inr succeeds_Inr ready_def append_defs
        Let_def)
qed

lemma guarded_succeeds:
  assumes "ready b"
  shows "Data bin \<noteq> None \<Longrightarrow> succeeds b (AppendBinary b name bin)"
    and "IsValid oid \<Longrightarrow> succeeds b (AppendObjectId IsValid b name oid)"
proof -
  from assms have c: "checkBeforeAppend b = Inr ()" and f: "\<not> finished b" "\<not> inChild b"
    by (simp_all add: ready_def checkBeforeAppend_def)
  show "Data bin \<noteq> None \<Longrightarrow> succeeds b (AppendBinary b name bin)"
    by (auto simp add: AppendBinary_def c f seq_Inr succeeds_Inr ready_def append_defs Let_def)
  show "IsValid oid \<Longrightarrow> succeeds b (AppendObjectId IsValid b name oid)"
    by (simp add: AppendObjectId_def c f seq_Inr succeeds_Inr ready_def append_defs)
qed

lemma guard_fails:
  "Data bin = None \<Longrightarrow> isl (AppendBinary b name bin)"
  "\<not> IsValid oid \<Longrightarrow> isl (AppendObjectId IsValid b name oid)"
  by (simp_all add: AppendBinary_def AppendObjectId_def seq_def split: sum.splits)

text \<open>
  Opening a child on a ready builder: the child is ready, its buffer is the parent's
  buffer with the reserved length field, and its offset is where the field starts.
\<close>

lemma BsonStart_opens:
  assumes "ready b"
  shows "\<exists>b1 c. AppendBsonStart b name = Inr b1 \<and> child b1 = Some c \<and> inChild b1
    \<and> \<not> finished b1 \<and> offset b1 = offset b \<and> ready c \<and> offset c + 4 = length (raw c)
    \<and> length (raw b) \<le> length (raw c)"
proof -
  from assms have c: "checkBeforeAppend b = Inr ()" and f: "\<not> finished b" "\<not> inChild b"
    by (simp_all add: ready_def checkBeforeAppend_def)
  show ?thesis
    by (simp add: AppendBsonStart_def c f seq_Inr Let_def reserveInt32_def set_child_def
        append_defs ready_def)
qed

lemma ArrayStart_opens:
  assumes "ready b"
  shows "\<exists>b1 c. AppendArrayStart b name = Inr b1 \<and> child b1 = Some c \<and> inChild b1
    \<and> \<not> finished b1 \<and> offset b1 = offset b \<and> ready c \<and> offset c + 4 = length (raw c)
    \<and> length (raw b) \<le> length (raw c)"
proof -
  from assms have c: "checkBeforeAppend b = Inr ()" and f: "\<not> finished b" "\<not> inChild b"
    by (simp_all add: ready_def checkBeforeAppend_def)
  show ?thesis
    by (simp add: AppendArrayStart_def c f seq_Inr Let_def reserveInt32_def set_child_def
        append_defs ready_def)
qed

lemma Finish_returns:
  assumes "ready c" and "offset c + 3 \<le> length (raw c)"
  shows "\<exists>c'. Finish c = Inr c'"
proof -
  from assms(1) have c: "checkBeforeAppend c = Inr ()"
    by (simp add: ready_def checkBeforeAppend_def)
  from assms(2) show ?thesis
    by (simp add: Finish_def c seq_Inr Let_def setInt32_def set_raw_def)
qed

lemma End_ready:
  "inChild b \<Longrightarrow> \<not> finished b \<Longrightarrow> child b = Some c \<Longrightarrow> raw c \<noteq> [] \<Longrightarrow> last (raw c) = eod \<Longrightarrow>
   AppendBsonEnd b = Inr (set_child (set_raw b (raw c)) None False)
   \<and> AppendArrayEnd b = Inr (set_child (set_raw b (raw c)) None False)"
  by (simp add: AppendBsonEnd_def AppendArrayEnd_def)

text \<open>
  Closing the child: when the entries were appended to the child \<open>c\<close> with success, the
  child is finished and closed, and the parent is ready again, with the child's buffer.
\<close>

lemma close_succeeds:
  assumes b1: "inChild b1" "\<not> finished b1"
    and r: "succeeds c (Inr c1)" and c: "offset c + 4 = length (raw c)"
  shows "\<exists>c2 b'. Finish c1 = Inr c2
    \<and> AppendBsonEnd (set_child b1 (Some c2) (inChild b1)) = Inr b'
    \<and> AppendArrayEnd (set_child b1 (Some c2) (inChild b1)) = Inr b'
    \<and> ready b' \<and> offset b' = offset b1 \<and> length (raw c) \<le> length (raw b')"
proof -
  from r have c1: "ready c1" "offset c1 = offset c" "length (raw c) \<le> length (raw c1)"
    by (simp_all add: succeeds_Inr)
  from c1 c have "offset c1 + 3 \<le> length (raw c1)" by simp
  with c1(1) obtain c2 where f: "Finish c1 = Inr c2"
    using Finish_returns by blast
  from Finish_shape [OF f] have l: "last (raw c2) = eod"
    and n: "length (raw c2) = length (raw c1) + 1"
    by (simp_all add: eod_def)
  from n have ne: "raw c2 \<noteq> []" by auto
  let ?b = "set_child b1 (Some c2) (inChild b1)"
  let ?b' = "set_child (set_raw ?b (raw c2)) None False"
  have "inChild ?b" "\<not> finished ?b" "child ?b = Some c2"
    using b1 by (simp_all add: set_child_def)
  from End_ready [OF this ne l]
  have e: "AppendBsonEnd ?b = Inr ?b'" "AppendArrayEnd ?b = Inr ?b'"
    by simp_all
  have "ready ?b'" "offset ?b' = offset b1" "length (raw c) \<le> length (raw ?b')"
    using b1 n c1 by (simp_all add: ready_def set_child_def set_raw_def)
  with f e show ?thesis by blast
qed

text \<open>
  The builders that the package creates are sound, and an append that succeeds keeps a
  builder sound.
\<close>

lemma sound_created: "sound NewBson" "sound (NewBsonWithRaw r)"
  by (simp_all add: sound_def NewBson_def NewBsonWithRaw_def reserveInt32_def set_raw_def)

lemma sound_child:
  assumes "ready b" and "AppendBsonStart b name = Inr b1" and "child b1 = Some c"
  shows "sound c"
  using BsonStart_opens [OF assms(1), of name] assms(2,3) by (auto simp add: sound_def)

lemma sound_kept: "sound b \<Longrightarrow> succeeds b (Inr b') \<Longrightarrow> sound b'"
  by (simp add: sound_def succeeds_Inr)

lemma settles_isl: "settles ok b r \<Longrightarrow> isl r = (\<not> ok)"
  by (cases r) (auto simp add: settles_def succeeds_def split: if_splits)

lemma settles_trans: "succeeds c (Inr c') \<Longrightarrow> settles ok c' r \<Longrightarrow> settles ok c r"
  by (cases r) (auto simp add: settles_def succeeds_def split: if_splits)

lemma settles_document:
  assumes rb: "ready b"
    and IH: "\<And>b1 c. AppendBsonStart b name = Inr b1 \<Longrightarrow> child b1 = Some c \<Longrightarrow> ready c \<Longrightarrow>
               settles ok c (E c)"
  shows "settles ok b
    (case AppendBsonStart b name of Inl p \<Rightarrow> Inl p
     | Inr b1 \<Rightarrow>
         (case child b1 of None \<Rightarrow> Inl PanicNilPointer
          | Some c \<Rightarrow> close_document b1 (E c)))"
proof -
  from BsonStart_opens [OF rb, of name]
  obtain b1 c where s: "AppendBsonStart b name = Inr b1" and ch: "child b1 = Some c"
    and o: "inChild b1" "\<not> finished b1" and ob: "offset b1 = offset b"
    and c: "ready c" and oc: "offset c + 4 = length (raw c)"
    and lc: "length (raw b) \<le> length (raw c)"
    by blast
  from IH [OF s ch c] have e: "settles ok c (E c)" .
  show ?thesis
  proof (cases "E c")
    case (Inl p)
    with e have "\<not> ok" by (simp add: settles_def succeeds_Inl split: if_splits)
    with Inl s ch show ?thesis by (simp add: settles_def close_document_def seq_Inl)
  next
    case (Inr c1)
    with e have ok: ok and sc: "succeeds c (Inr c1)"
      by (simp_all add: settles_def split: if_splits)
    from close_succeeds [OF o sc oc]
    obtain c2 b' where "Finish c1 = Inr c2"
      and "AppendBsonEnd (set_child b1 (Some c2) (inChild b1)) = Inr b'"
      and "ready b'" and "offset b' = offset b1" and "length (raw c) \<le> length (raw b')"
      by blast
    with Inr s ch ok ob lc show ?thesis
      by (simp add: settles_def close_document_def seq_Inr succeeds_Inr)
  qed
qed

lemma settles_array:
  assumes rb: "ready b"
    and IH: "\<And>b1 c. AppendArrayStart b name = Inr b1 \<Longrightarrow> child b1 = Some c \<Longrightarrow>
               ready (bson (MkBsonArray c 0)) \<Longrightarrow>
               settles ok (bson (MkBsonArray c 0)) (builder_of (E c))"
  shows "settles ok b
    (case AppendArrayStart b name of Inl p \<Rightarrow> Inl p
     | Inr b1 \<Rightarrow>
         (case child b1 of None \<Rightarrow> Inl PanicNilPointer
          | Some c \<Rightarrow> close_array b1 (E c)))"
proof -
  from ArrayStart_opens [OF rb, of name]
  obtain b1 c where s: "AppendArrayStart b name = Inr b1" and ch: "child b1 = Some c"
    and o: "inChild b1" "\<not> finished b1" and ob: "offset b1 = offset b"
    and c: "ready c" and oc: "offset c + 4 = length (raw c)"
    and lc: "length (raw b) \<le> length (raw c)"
    by blast
  from c have "ready (bson (MkBsonArray c 0))" by simp
  from IH [OF s ch this] have e: "settles ok c (builder_of (E c))" by simp
  show ?thesis
  proof (cases "E c")
    case (Inl p)
    with e have "\<not> ok"
      by (simp add: settles_def builder_of_def seq_Inl succeeds_Inl split: if_splits)
    with Inl s ch show ?thesis by (simp add: settles_def close_array_def seq_Inl)
  next
    case (Inr a1)
    with e have ok: ok and sc: "succeeds c (Inr (bson a1))"
      by (simp_all add: settles_def builder_of_def seq_Inr split: if_splits)
    from close_succeeds [OF o sc oc]
    obtain c2 b' where "Finish (bson a1) = Inr c2"
      and "AppendArrayEnd (set_child b1 (Some c2) (inChild b1)) = Inr b'"
      and "ready b'" and "offset b' = offset b1" and "length (raw c) \<le> length (raw b')"
      by blast
    with Inr s ch ok ob lc show ?thesis
      by (simp add: settles_def close_array_def BsonArray_Finish_def seq_Inr succeeds_Inr)
  qed
qed

text \<open>
  The generic \<open>Append\<close> on a ready builder: it returns, and leaves a ready builder, when
  the value passes \<open>val_ok\<close>, and aborts otherwise; likewise for the entries of a document
  and the elements of an array.
\<close>

lemma Append_settles:
  "ready b \<Longrightarrow> settles (val_ok IsValid v) b (Append IsValid b name v)"
  "ready c \<Longrightarrow> settles (entries_ok IsValid kvs) c (AppendEntries IsValid c kvs)"
  "ready (bson a) \<Longrightarrow>
     settles (elems_ok IsValid vs) (bson a) (builder_of (AppendElems IsValid a vs))"
proof (induction IsValid b name v and IsValid c kvs and IsValid a vs
    rule: Append_AppendEntries_AppendElems.induct)
  case (22 IsValid b name v)
  then show ?case
    by (cases v) (simp_all add: settles_def typed_succeeds)
next
  case (23 IsValid b name m)
  from "23.prems" "23.IH"
  have "settles (entries_ok IsValid m) b
    (case AppendBsonStart b name of Inl p \<Rightarrow> Inl p
     | Inr b1 \<Rightarrow>
         (case child b1 of None \<Rightarrow> Inl PanicNilPointer
          | Some c \<Rightarrow> close_document b1 (AppendEntries IsValid c m)))"
    by (rule settles_document)
  then show ?case by simp
next
  case (24 IsValid b name d)
  from "24.prems" "24.IH"
  have "settles (entries_ok IsValid d) b
    (case AppendBsonStart b name of Inl p \<Rightarrow> Inl p
     | Inr b1 \<Rightarrow>
         (case child b1 of None \<Rightarrow> Inl PanicNilPointer
          | Some c \<Rightarrow> close_document b1 (AppendEntries IsValid c d)))"
    by (rule settles_document)
  then show ?case by simp
next
  case (25 IsValid b name vs)
  from "25.prems" "25.IH"
  have "settles (elems_ok IsValid vs) b
    (case AppendArrayStart b name of Inl p \<Rightarrow> Inl p
     | Inr b1 \<Rightarrow>
         (case child b1 of None \<Rightarrow> Inl PanicNilPointer
          | Some c \<Rightarrow> close_array b1 (AppendElems IsValid (MkBsonArray c 0) vs)))"
    by (rule settles_array)
  then show ?case by simp
next
  case (26 IsValid b name kvs)
  from "26.prems" "26.IH"
  have "settles (entries_ok IsValid kvs) b
    (case AppendBsonStart b name of Inl p \<Rightarrow> Inl p
     | Inr b1 \<Rightarrow>
         (case child b1 of None \<Rightarrow> Inl PanicNilPointer
          | Some c \<Rightarrow> close_document b1 (AppendEntries IsValid c kvs)))"
    by (rule settles_document)
  then show ?case by simp
next
  case (29 IsValid b name fs)
  from "29.prems" "29.IH"
  have "settles (entries_ok IsValid fs) b
    (case AppendBsonStart b name of Inl p \<Rightarrow> Inl p
     | Inr b1 \<Rightarrow>
         (case child b1 of None \<Rightarrow> Inl PanicNilPointer
          | Some c \<Rightarrow> close_document b1 (AppendEntries IsValid c fs)))"
    by (rule settles_document)
  then show ?case by simp
next
  case (32 IsValid c k v kvs)
  from "32.IH"(1) [OF "32.prems"]
  have h: "settles (val_ok IsValid v) c (Append IsValid c k v)" .
  show ?case
  proof (cases "Append IsValid c k v")
    case (Inl p)
    with h have "\<not> val_ok IsValid v"
      by (simp add: settles_def succeeds_Inl split: if_splits)
    with Inl show ?thesis by (simp add: settles_def)
  next
    case (Inr c')
    with h have ok: "val_ok IsValid v" and sc: "succeeds c (Inr c')"
      by (simp_all add: settles_def split: if_splits)
    from sc have "ready c'" by (simp add: succeeds_Inr)
    from "32.IH"(2) [OF Inr this]
    have "settles (entries_ok IsValid kvs) c' (AppendEntries IsValid c' kvs)" .
    from settles_trans [OF sc this] Inr ok show ?thesis by simp
  qed
next
  case (34 IsValid a v vs)
  let ?r = "Append IsValid (bson a) (itoa (index a)) v"
  from "34.IH"(1) [OF "34.prems"]
  have h: "settles (val_ok IsValid v) (bson a) ?r" .
  show ?case
  proof (cases ?r)
    case (Inl p)
    with h have "\<not> val_ok IsValid v"
      by (simp add: settles_def succeeds_Inl split: if_splits)
    with Inl show ?thesis by (simp add: settles_def builder_of_def seq_Inl)
  next
    case (Inr b')
    with h have ok: "val_ok IsValid v" and sc: "succeeds (bson a) (Inr b')"
      by (simp_all add: settles_def split: if_splits)
    from sc have "ready (bson (MkBsonArray b' (Suc (index a))))" by (simp add: succeeds_Inr)
    from "34.IH"(2) [OF Inr this]
    have "settles (elems_ok IsValid vs) b'
      (builder_of (AppendElems IsValid (MkBsonArray b' (Suc (index a))) vs))"
      by simp
    from settles_trans [OF sc this] Inr ok show ?thesis by simp
  qed
qed (simp_all add: settles_def typed_succeeds guarded_succeeds guard_fails sint64_neg_iff
      not_less Let_def succeeds_Inr builder_of_def seq_Inr)

lemma do_append_ready:
  assumes "\<not> finished b" and "\<not> inChild b" and "sound b" and "sound_arg op"
  shows "isl (do_append IsValid b op) = (\<not> own_guard IsValid op)"
proof -
  from assms(1,2) have c: "checkBeforeAppend b = Inr ()" by (rule check_ok)
  from assms(1,2) have r: "ready b" by (simp add: ready_def)
  show ?thesis
  proof (cases op)
    case (OpBson name v)
    with assms(3,4) show ?thesis
      by (cases v)
         (simp_all add: AppendBson_def c seq_Inr seq_Inl Let_def Raw_def sound_def append_defs)
  next
    case (OpArray name v)
    with assms(3,4) show ?thesis
      by (cases v)
         (simp_all add: AppendArray_def c seq_Inr seq_Inl Let_def Raw_def BsonArray_Raw_def
           sound_def append_defs)
  next
    case (OpAppend name v)
    from Append_settles(1) [OF r, of IsValid v name] OpAppend show ?thesis
      by (simp add: settles_isl)
  qed (simp_all add: typed_append_defs c seq_Inr seq_Inl Let_def split: option.splits)
qed

lemma End_not_in_child: "\<not> inChild b \<Longrightarrow> isl (AppendBsonEnd b) \<and> isl (AppendArrayEnd b)"
  by (simp add: AppendBsonEnd_def AppendArrayEnd_def)

lemma End_child_unfinished:
  "child b = Some c \<Longrightarrow> last (raw c) \<noteq> eod \<Longrightarrow> isl (AppendBsonEnd b) \<and> isl (AppendArrayEnd b)"
  by (simp add: AppendBsonEnd_def AppendArrayEnd_def)

text \<open>
  Claim C5, as stated, at \<open>AppendBinary\<close> with nil data on a new builder: the builder is
  not finished and has no open child, and the append aborts.
\<close>

theorem C5_nil_binary_aborts:
  "\<not> finished NewBson \<and> \<not> inChild NewBson
   \<and> AppendBinary NewBson ''a'' \<lparr>Subtype = 0x00, Data = None\<rparr> = Inl PanicBinaryIsNull"
  by (simp add: NewBson_fresh AppendBinary_def checkBeforeAppend_def seq_def)

text \<open>
  Claim C5, amended. Every append operation aborts if the builder is finished or a child
  is open. On a builder that is not finished and has no open child, an append operation
  aborts exactly when the check that the operation makes on its own argument fails, and
  succeeds otherwise. The checks (\<open>own_guard\<close>) are: nil data for \<open>AppendBinary\<close>; an
  invalid identifier for \<open>AppendObjectId\<close>; a nil document for \<open>AppendBson\<close> and a nil
  array for \<open>AppendArray\<close>; for the generic \<open>Append\<close> (\<open>val_ok\<close>) an unsigned 64-bit or
  platform-sized value above \<open>MaxInt64\<close>, nil binary data, an invalid identifier, an
  \<open>orderKey\<close> that is neither \<open>MinKey\<close> nor \<open>MaxKey\<close>, a value of a type that \<open>Append\<close>
  does not know, a pointer to a value that fails, and a map, document, struct, array or
  slice with an entry or element that fails. This is said of builders and of documents
  and arrays passed to \<open>AppendBson\<close> and \<open>AppendArray\<close> whose offset lies within their
  buffer (\<open>sound\<close>), as it does for all that the operations of the package create.
  \<open>AppendBsonEnd\<close> and \<open>AppendArrayEnd\<close> abort if no child is open or if the last byte
  of the child's buffer is not \<open>0x00\<close>; they succeed when a child is open, the builder is
  not finished and the child's buffer ends with \<open>0x00\<close>.
\<close>

theorem C5_append_preconditions:
  "(finished b \<or> inChild b \<longrightarrow> isl (do_append IsValid b op))
   \<and> (\<not> finished b \<and> \<not> inChild b \<and> sound b \<and> sound_arg op \<longrightarrow>
        isl (do_append IsValid b op) = (\<not> own_guard IsValid op))
   \<and> (\<not> inChild b \<longrightarrow> isl (AppendBsonEnd b) \<and> isl (AppendArrayEnd b))
   \<and> (child b = Some c \<and> last (raw c) \<noteq> eod \<longrightarrow> isl (AppendBsonEnd b) \<and> isl (AppendArrayEnd b))
   \<and> (inChild b \<and> \<not> finished b \<and> child b = Some c \<and> raw c \<noteq> [] \<and> last (raw c) = eod \<longrightarrow>
        \<not> isl (AppendBsonEnd b) \<and> \<not> isl (AppendArrayEnd b))"
proof (intro conjI impI)
  assume "finished b \<or> inChild b"
  then show "isl (do_append IsValid b op)" by (rule do_append_blocked)
next
  assume "\<not> finished b \<and> \<not> inChild b \<and> sound b \<and> sound_arg op"
  then show "isl (do_append IsValid b op) = (\<not> own_guard IsValid op)"
    by (simp add: do_append_ready)
next
  assume "\<not> inChild b"
  then show "isl (AppendBsonEnd b)" "isl (AppendArrayEnd b)"
    by (simp_all add: End_not_in_child)
next
  assume "child b = Some c \<and> last (raw c) \<noteq> eod"
  then show "isl (AppendBsonEnd b)" "isl (AppendArrayEnd b)"
    by (simp_all add: End_child_unfinished)
next
  assume "inChild b \<and> \<not> finished b \<and> child b = Some c \<and> raw c \<noteq> [] \<and> last (raw c) = eod"
  then show "\<not> isl (AppendBsonEnd b)" "\<not> isl (AppendArrayEnd b)"
    by (simp_all add: End_ready)
qed

theorem C5_append_preconditions_witness:
  "finished emptyBson
   \<and> isl (AppendInt32 emptyBson ''a'' 1)
   \<and> AppendString NewBson ''hello'' ''world'' =
        Inr (MkBson [0, 0, 0, 0, 0x02, 0x68, 0x65, 0x6C, 0x6C, 0x6F, 0x00,
                     0x06, 0x00, 0x00, 0x00, 0x77, 0x6F, 0x72, 0x6C, 0x64, 0x00] 0 None False False)
   \<and> isl (AppendBinary NewBson ''a'' \<lparr>Subtype = 0x00, Data = None\<rparr>)
   \<and> isl (AppendBson NewBson ''a'' Null)
   \<and> AppendBson NewBson ''a'' Receiver =
        Inr (MkBson [0, 0, 0, 0, 0x03, 0x61, 0x00, 0, 0, 0, 0, 0x03, 0x61, 0x00] 0 None False False)
   \<and> isl (Append (\<lambda>_. True) NewBson ''a'' (VOther ''complex128''))
   \<and> isl (Append (\<lambda>_. True) NewBson ''a'' (VOrderKey OtherOrderKey))
   \<and> isl (Append (\<lambda>_. True) NewBson ''a'' (VSlice [VInt32 1, VOther ''chan int'']))
   \<and> Append (\<lambda>_. True) NewBson ''a'' (VSlice [VBool True]) =
        Inr (MkBson [0, 0, 0, 0, 0x04, 0x61, 0x00, 0x09, 0, 0, 0, 0x08, 0x30, 0x00, 0x01, 0x00]
               0 None False False)
   \<and> isl (AppendBsonEnd NewBson)
   \<and> isl (AppendArrayEnd
        (MkBson [0, 0, 0, 0, 0x04, 0x6E, 0x00] 0
           (Some (MkBson [0, 0, 0, 0, 0x04, 0x6E, 0x00, 0, 0, 0, 0, 0x08, 0x30, 0x00, 0x01] 7
                    None False False))
           True False))
   \<and> AppendBsonEnd
        (MkBson [0, 0, 0, 0, 0x03, 0x6E, 0x00] 0
           (Some (MkBson [0, 0, 0, 0, 0x03, 0x6E, 0x00, 0x09, 0, 0, 0, 0x08, 0x78, 0x00, 0x01, 0x00] 7
                    None False True))
           True False) =
        Inr (MkBson [0, 0, 0, 0, 0x03, 0x6E, 0x00, 0x09, 0, 0, 0, 0x08, 0x78, 0x00, 0x01, 0x00] 0
               None False False)"
proof -
  let ?v = "\<lambda>_ :: ObjectId. True"
  let ?c1 = "MkBson [0, 0, 0, 0, 0x04, 0x6E, 0x00, 0, 0, 0, 0, 0x08, 0x30, 0x00, 0x01] 7 None False False"
  let ?p1 = "MkBson [0, 0, 0, 0, 0x04, 0x6E, 0x00] 0 (Some ?c1) True False"
  let ?c2 = "MkBson [0, 0, 0, 0, 0x03, 0x6E, 0x00, 0x09, 0, 0, 0, 0x08, 0x78, 0x00, 0x01, 0x00] 7 None False True"
  let ?p2 = "MkBson [0, 0, 0, 0, 0x03, 0x6E, 0x00] 0 (Some ?c2) True False"
  have f: "finished emptyBson" by (simp add: emptyBson_def)
  have s: "sound NewBson" by (rule sound_created)
  from C5_append_preconditions [of emptyBson ?v "OpInt32 ''a'' 1"] f
  have a: "isl (AppendInt32 emptyBson ''a'' 1)" by simp
  from C5_append_preconditions [of NewBson ?v "OpString ''hello'' ''world''"]
  have "\<not> isl (AppendString NewBson ''hello'' ''world'')"
    by (simp add: NewBson_fresh s)
  then have b: "AppendString NewBson ''hello'' ''world'' =
        Inr (MkBson [0, 0, 0, 0, 0x02, 0x68, 0x65, 0x6C, 0x6C, 0x6F, 0x00,
                     0x06, 0x00, 0x00, 0x00, 0x77, 0x6F, 0x72, 0x6C, 0x64, 0x00] 0 None False False)"
    by (simp add: AppendString_def seq_def NewBson_def reserveInt32_def set_raw_def appendType_def
        appendCString_def appendInt32_def bytes_of_def BsonTypeString_def Let_def
        split: sum.splits)
  from C5_append_preconditions [of NewBson ?v "OpBinary ''a'' \<lparr>Subtype = 0x00, Data = None\<rparr>"]
  have c: "isl (AppendBinary NewBson ''a'' \<lparr>Subtype = 0x00, Data = None\<rparr>)"
    by (simp add: NewBson_fresh s)
  from C5_append_preconditions [of NewBson ?v "OpBson ''a'' Null"]
  have n: "isl (AppendBson NewBson ''a'' Null)"
    by (simp add: NewBson_fresh s)
  from C5_append_preconditions [of NewBson ?v "OpBson ''a'' Receiver"]
  have "\<not> isl (AppendBson NewBson ''a'' Receiver)"
    by (simp add: NewBson_fresh s)
  then have r: "AppendBson NewBson ''a'' Receiver =
        Inr (MkBson [0, 0, 0, 0, 0x03, 0x61, 0x00, 0, 0, 0, 0, 0x03, 0x61, 0x00] 0 None False False)"
    by (simp add: AppendBson_def seq_def NewBson_def reserveInt32_def append_defs Raw_def
        checkBeforeAppend_def bytes_of_def BsonTypeBson_def Let_def)
  from C5_append_preconditions [of NewBson ?v "OpAppend ''a'' (VOther ''complex128'')"]
  have o: "isl (Append ?v NewBson ''a'' (VOther ''complex128''))"
    by (simp add: NewBson_fresh s)
  from C5_append_preconditions [of NewBson ?v "OpAppend ''a'' (VOrderKey OtherOrderKey)"]
  have k: "isl (Append ?v NewBson ''a'' (VOrderKey OtherOrderKey))"
    by (simp add: NewBson_fresh s)
  from C5_append_preconditions
    [of NewBson ?v "OpAppend ''a'' (VSlice [VInt32 1, VOther ''chan int''])"]
  have l: "isl (Append ?v NewBson ''a'' (VSlice [VInt32 1, VOther ''chan int'']))"
    using NewBson_fresh(1,2) s by simp
  from C5_append_preconditions [of NewBson ?v "OpAppend ''a'' (VSlice [VBool True])"]
  have "\<not> isl (Append ?v NewBson ''a'' (VSlice [VBool True]))"
    using NewBson_fresh(1,2) s by simp
  then have m: "Append ?v NewBson ''a'' (VSlice [VBool True]) =
        Inr (MkBson [0, 0, 0, 0, 0x04, 0x61, 0x00, 0x09, 0, 0, 0, 0x08, 0x30, 0x00, 0x01, 0x00]
               0 None False False)"
    by (simp add: AppendArrayStart_def AppendBool_def AppendArrayEnd_def close_array_def
        BsonArray_Finish_def Finish_def setInt32_def seq_def NewBson_def reserveInt32_def
        append_defs set_child_def set_finished_def checkBeforeAppend_def bytes_of_def
        BsonTypeArray_def BsonTypeBool_def eod_def itoa.simps char_of_def bit_Suc_0_iff Let_def)
  from C5_append_preconditions [of NewBson]
  have d: "isl (AppendBsonEnd NewBson)"
    by (simp add: NewBson_fresh)
  from C5_append_preconditions [of ?p1 ?v "OpNull []" ?c1]
  have e: "isl (AppendArrayEnd ?p1)"
    by (simp add: eod_def)
  from C5_append_preconditions [of ?p2 ?v "OpNull []" ?c2]
  have "\<not> isl (AppendBsonEnd ?p2)"
    by (simp add: eod_def)
  then have g: "AppendBsonEnd ?p2 =
      Inr (MkBson [0, 0, 0, 0, 0x03, 0x6E, 0x00, 0x09, 0, 0, 0, 0x08, 0x78, 0x00, 0x01, 0x00] 0
             None False False)"
    by (simp add: AppendBsonEnd_def set_child_def set_raw_def eod_def)
  from f a b c n r o k l m d e g show ?thesis by simp
qed

subsection \<open>Validate\<close>

text \<open>
  Claim C9. \<open>Validate\<close> never aborts: whatever the iteration does (\<open>iterate\<close> is any
  function), \<open>Validate\<close> returns, and what it returns is nil or one of the errors
  "unfinished bson", "invalid bson length" and "invalid bson: ..." with the recovered
  panic; for a byte buffer wrapped by \<open>NewBsonWithRaw\<close> the first of the three is
  excluded. When the iteration of the document panics, the result is not nil.
\<close>

theorem C9_Validate_never_aborts:
  "(\<exists>e. Validate iterate b = Inr e
        \<and> (e = None \<or> e = Some ErrUnfinishedBson \<or> e = Some ErrInvalidBsonLength
             \<or> (\<exists>p. e = Some (ErrInvalidBson p))))
   \<and> (\<exists>e. Validate iterate (NewBsonWithRaw buf) = Inr e
        \<and> (e = None \<or> e = Some ErrInvalidBsonLength \<or> (\<exists>p. e = Some (ErrInvalidBson p))))
   \<and> (iterate b = Some q \<longrightarrow> Validate iterate b \<noteq> Inr None)"
proof (intro conjI impI)
  show "\<exists>e. Validate iterate b = Inr e
        \<and> (e = None \<or> e = Some ErrUnfinishedBson \<or> e = Some ErrInvalidBsonLength
             \<or> (\<exists>p. e = Some (ErrInvalidBson p)))"
    by (auto simp add: Validate_def Validate_body_def seq_def split: sum.splits option.splits)
next
  show "\<exists>e. Validate iterate (NewBsonWithRaw buf) = Inr e
        \<and> (e = None \<or> e = Some ErrInvalidBsonLength \<or> (\<exists>p. e = Some (ErrInvalidBson p)))"
    by (auto simp add: Validate_def Validate_body_def seq_def NewBsonWithRaw_def
        split: sum.splits option.splits)
next
  assume "iterate b = Some q"
  then show "Validate iterate b \<noteq> Inr None"
    by (auto simp add: Validate_def Validate_body_def seq_def split: sum.splits option.splits if_splits)
qed

theorem C9_Validate_never_aborts_witness:
  "Validate (\<lambda>_. Some PanicIndexOutOfRange) (NewBsonWithRaw [0x05, 0x00, 0x00, 0x00, 0x01]) =
     Inr (Some (ErrInvalidBson PanicIndexOutOfRange))
   \<and> Validate (\<lambda>_. None) (NewBsonWithRaw [0x05, 0x00]) = Inr (Some (ErrInvalidBson PanicIndexOutOfRange))"
proof -
  let ?it = "\<lambda>_ :: Bson. Some PanicIndexOutOfRange"
  let ?b = "NewBsonWithRaw [0x05, 0x00, 0x00, 0x00, 0x01]"
  from C9_Validate_never_aborts [of ?it ?b "[]" PanicIndexOutOfRange]
  have "Validate ?it ?b \<noteq> Inr None" by simp
  then have a: "Validate ?it ?b = Inr (Some (ErrInvalidBson PanicIndexOutOfRange))"
    by (simp add: Validate_def Validate_body_def Bson_Length_def Raw_def bytesToInt32_def seq_def
        NewBsonWithRaw_def)
  have b: "Validate (\<lambda>_. None) (NewBsonWithRaw [0x05, 0x00]) = Inr (Some (ErrInvalidBson PanicIndexOutOfRange))"
    by (simp add: Validate_def Validate_body_def Bson_Length_def Raw_def bytesToInt32_def seq_def
        NewBsonWithRaw_def)
  from a b show ?thesis by simp
qed

section \<open>Properties of the wire messages\<close>

subsection \<open>Decoding the system-info reply\<close>

lemma ReadFull_enough: "n \<le> length r \<Longrightarrow> ReadFull r n = (None, take n r, drop n r)"
  by (simp add: ReadFull_def)

lemma ReadFull_ok: "ReadFull r n = (None, buf, r') \<Longrightarrow> n \<le> length r \<and> buf = take n r \<and> r' = drop n r"
  by (simp add: ReadFull_def split: if_splits)

lemma SysInfoMsgHeader_Decode_ok:
  assumes "SysInfoMsgHeader_Decode m r order = (None, m1, r1)"
  shows "12 \<le> length r \<and> r1 = drop 12 r \<and> SysInfoMsgHeader.more m1 = SysInfoMsgHeader.more m
    \<and> SysInfo_Length m1 = Uint32 order (take 12 r) 8"
  using assms
  by (auto simp add: SysInfoMsgHeader_Decode_def ReadFull_def split: if_splits)

text \<open>
  Claim C10. Once the 12-byte header is decoded, a \<open>Length\<close> field other than 128 makes
  \<open>SysInfoReply.Decode\<close> return the "invalid sysinfo reply size" error with the stream
  right behind the header (the body is not read) and \<open>OSType\<close> as it was. When \<open>Length\<close>
  is 128 that error is not returned; the 116-byte body is read and \<open>OSType\<close> is set from
  its first four bytes.
\<close>

theorem C10_sysinfo_reply_size:
  assumes "SysInfoMsgHeader_Decode m r order = (None, m1, r1)"
  shows "(SysInfo_Length m1 \<noteq> 128 \<longrightarrow>
            SysInfoReply_Decode m r order = (Some ErrInvalidSysInfoReplySize, m1, r1)
            \<and> OSType m1 = OSType m \<and> r1 = drop 12 r)
       \<and> (SysInfo_Length m1 = 128 \<longrightarrow>
            fst (SysInfoReply_Decode m r order) \<noteq> Some ErrInvalidSysInfoReplySize
            \<and> (116 \<le> length r1 \<longrightarrow>
                 SysInfoReply_Decode m r order =
                   (None, m1\<lparr>OSType := Uint32 order (take 116 r1) 0\<rparr>, drop 116 r1)))"
proof -
  from assms have r1: "r1 = drop 12 r" and os: "OSType m1 = OSType m"
    by (auto simp add: SysInfoMsgHeader_Decode_def ReadFull_def split: if_splits)
  show ?thesis
    using r1 os
    by (auto simp add: SysInfoReply_Decode_def assms sysInfoReplySize_def sysInfoMsgHeaderSize_def
        ReadFull_def)
qed

theorem C10_sysinfo_reply_size_witness:
  "SysInfoReply_Decode \<lparr>Special = 0, EyeCatcher = 0, SysInfo_Length = 0, OSType = 7\<rparr>
      [0xFF, 0xFF, 0xFF, 0xFF, 0xFC, 0xFD, 0xFE, 0xFF, 0x0C, 0x00, 0x00, 0x00, 0x01, 0x02]
      binary_LittleEndian =
     (Some ErrInvalidSysInfoReplySize,
      \<lparr>Special = 0xFFFFFFFF, EyeCatcher = 0xFFFEFDFC, SysInfo_Length = 12, OSType = 7\<rparr>,
      [0x01, 0x02])"
proof -
  let ?m = "\<lparr>Special = 0, EyeCatcher = 0, SysInfo_Length = 0, OSType = 7\<rparr>"
  let ?r = "[0xFF, 0xFF, 0xFF, 0xFF, 0xFC, 0xFD, 0xFE, 0xFF, 0x0C, 0x00, 0x00, 0x00, 0x01, 0x02] :: byte list"
  let ?m1 = "\<lparr>Special = 0xFFFFFFFF, EyeCatcher = 0xFFFEFDFC, SysInfo_Length = 12, OSType = 7\<rparr>"
  have h: "SysInfoMsgHeader_Decode ?m ?r binary_LittleEndian = (None, ?m1, [0x01, 0x02])"
    by (simp add: SysInfoMsgHeader_Decode_def ReadFull_def Uint32_def)
  from C10_sysinfo_reply_size [OF h] show ?thesis
    by simp
qed

subsection \<open>Decoding the reply\<close>

lemma sint_sub_48:
  assumes "48 \<le> sint (l :: int32)"
  shows "sint (l - 48) = sint l - 48"
proof -
  have "sint l < 2 ^ 31" using sint_lt [of l] by simp
  with assms have "signed_take_bit 31 (sint l - 48) = sint l - 48"
    by (intro signed_take_bit_int_eq_self) simp_all
  then show ?thesis
    by (simp add: sint_word_diff)
qed

lemma ReplyMsg_Size_48: "ReplyMsg_Size m = 48"
  by (simp add: ReplyMsg_Size_def MsgHeader_Size_def msgHeaderSize_def)

text \<open>
  Claim C8. Once the 28-byte header is decoded, \<open>ReplyMsg.Decode\<close> returns the invalid
  length error exactly when \<open>Length\<close> is below 48 (header size plus 20). When \<open>Length\<close>
  is at least 48 and the 20 bytes of the fixed body are there, they are decoded; with
  flags zero the call returns with the stream right behind the body and \<open>Error\<close>
  untouched, and with flags nonzero the next \<open>Length - 48\<close> bytes are read and their
  string rendering becomes \<open>Error\<close>.
\<close>

theorem C8_reply_decode:
  assumes "MsgHeader_Decode m r order = (None, m1, r1)"
  shows "(sint (Length m1) < 48 \<longrightarrow>
            ReplyMsg_Decode String m r order = Inr (Some (ErrInvalidMsgLength 48 (Length m1)), m1, r1))
       \<and> (48 \<le> sint (Length m1) \<longrightarrow>
            (\<forall>e l st. ReplyMsg_Decode String m r order \<noteq> Inr (Some (ErrInvalidMsgLength e l), st))
            \<and> (20 \<le> length r1 \<longrightarrow>
                 (let m2 = m1\<lparr>ContextId := Uint64 order (take 20 r1) 0,
                              Reply_Flags := Uint32 order (take 20 r1) 8,
                              StartFrom := Uint32 order (take 20 r1) 12,
                              Reply_ReturnNum := Uint32 order (take 20 r1) 16\<rparr>;
                      n = nat (sint (Length m1) - 48)
                  in (Reply_Flags m2 = 0 \<longrightarrow>
                        ReplyMsg_Decode String m r order = Inr (None, m2, drop 20 r1))
                   \<and> (Reply_Flags m2 \<noteq> 0 \<and> n \<le> length (drop 20 r1) \<longrightarrow>
                        ReplyMsg_Decode String m r order =
                          (case String (take n (drop 20 r1)) of
                             Inl p \<Rightarrow> Inl p
                           | Inr errInfo \<Rightarrow> Inr (None, m2\<lparr>Error := errInfo\<rparr>, drop n (drop 20 r1)))))))"
proof (intro conjI impI)
  assume "sint (Length m1) < 48"
  then show "ReplyMsg_Decode String m r order = Inr (Some (ErrInvalidMsgLength 48 (Length m1)), m1, r1)"
    by (simp add: ReplyMsg_Decode_def assms ReplyMsg_Size_48)
next
  assume l: "48 \<le> sint (Length m1)"
  then show "\<forall>e l st. ReplyMsg_Decode String m r order \<noteq> Inr (Some (ErrInvalidMsgLength e l), st)"
    by (auto simp add: ReplyMsg_Decode_def assms ReplyMsg_Size_48 ReadFull_def Let_def
        split: sum.splits)
next
  assume l: "48 \<le> sint (Length m1)" and b: "20 \<le> length r1"
  show "let m2 = m1\<lparr>ContextId := Uint64 order (take 20 r1) 0,
                              Reply_Flags := Uint32 order (take 20 r1) 8,
                              StartFrom := Uint32 order (take 20 r1) 12,
                              Reply_ReturnNum := Uint32 order (take 20 r1) 16\<rparr>;
                      n = nat (sint (Length m1) - 48)
                  in (Reply_Flags m2 = 0 \<longrightarrow>
                        ReplyMsg_Decode String m r order = Inr (None, m2, drop 20 r1))
                   \<and> (Reply_Flags m2 \<noteq> 0 \<and> n \<le> length (drop 20 r1) \<longrightarrow>
                        ReplyMsg_Decode String m r order =
                          (case String (take n (drop 20 r1)) of
                             Inl p \<Rightarrow> Inl p
                           | Inr errInfo \<Rightarrow> Inr (None, m2\<lparr>Error := errInfo\<rparr>, drop n (drop 20 r1))))"
    using l b
    by (simp add: ReplyMsg_Decode_def assms ReplyMsg_Size_48 ReadFull_def Let_def sint_sub_48
        split: sum.splits)
qed

theorem C8_reply_decode_witness:
  "ReplyMsg_Decode (\<lambda>_. Inr ''{}'')
      \<lparr>Length = 0, OpCode = 0, Tid = 0, RouteId = 0, RequestId = 0, ContextId = 0,
       Reply_Flags = 0, StartFrom = 0, Reply_ReturnNum = 0, Error = []\<rparr>
      [0x35, 0x00, 0x00, 0x00, 0xD4, 0x07, 0x00, 0x80, 0x00, 0x00, 0x00, 0x00,
       0x00, 0x00, 0x00, 0x00, 0x00, 0x00, 0x00, 0x00,
       0x01, 0x00, 0x00, 0x00, 0x00, 0x00, 0x00, 0x00,
       0xFF, 0xFF, 0xFF, 0xFF, 0xFF, 0xFF, 0xFF, 0xFF,
       0x01, 0x00, 0x00, 0x00, 0x00, 0x00, 0x00, 0x00, 0x00, 0x00, 0x00, 0x00,
       0x05, 0x00, 0x00, 0x00, 0x00]
      binary_LittleEndian =
     Inr (None,
          \<lparr>Length = 53, OpCode = 0x800007D4, Tid = 0, RouteId = 0, RequestId = 1,
           ContextId = 0xFFFFFFFFFFFFFFFF, Reply_Flags = 1, StartFrom = 0, Reply_ReturnNum = 0,
           Error = ''{}''\<rparr>,
          [])
   \<and> ReplyMsg_Decode (\<lambda>_. Inr ''{}'')
      \<lparr>Length = 0, OpCode = 0, Tid = 0, RouteId = 0, RequestId = 0, ContextId = 0,
       Reply_Flags = 0, StartFrom = 0, Reply_ReturnNum = 0, Error = []\<rparr>
      [0x2F, 0x00, 0x00, 0x00, 0xD4, 0x07, 0x00, 0x80, 0x00, 0x00, 0x00, 0x00,
       0x00, 0x00, 0x00, 0x00, 0x00, 0x00, 0x00, 0x00,
       0x01, 0x00, 0x00, 0x00, 0x00, 0x00, 0x00, 0x00, 0xFF]
      binary_LittleEndian =
     Inr (Some (ErrInvalidMsgLength 48 47),
          \<lparr>Length = 47, OpCode = 0x800007D4, Tid = 0, RouteId = 0, RequestId = 1,
           ContextId = 0, Reply_Flags = 0, StartFrom = 0, Reply_ReturnNum = 0, Error = []\<rparr>,
          [0xFF])"
proof -
  let ?S = "\<lambda>_ :: byte list. Inr ''{}'' :: panic + string"
  let ?m = "\<lparr>Length = 0, OpCode = 0, Tid = 0, RouteId = 0, RequestId = 0, ContextId = 0,
       Reply_Flags = 0, StartFrom = 0, Reply_ReturnNum = 0, Error = []\<rparr>"
  let ?hd = "[0xD4, 0x07, 0x00, 0x80, 0x00, 0x00, 0x00, 0x00,
       0x00, 0x00, 0x00, 0x00, 0x00, 0x00, 0x00, 0x00,
       0x01, 0x00, 0x00, 0x00, 0x00, 0x00, 0x00, 0x00] :: byte list"
  let ?body = "[0xFF, 0xFF, 0xFF, 0xFF, 0xFF, 0xFF, 0xFF, 0xFF,
       0x01, 0x00, 0x00, 0x00, 0x00, 0x00, 0x00, 0x00, 0x00, 0x00, 0x00, 0x00,
       0x05, 0x00, 0x00, 0x00, 0x00] :: byte list"
  let ?m1 = "\<lambda>l. \<lparr>Length = l, OpCode = 0x800007D4, Tid = 0, RouteId = 0, RequestId = 1,
           ContextId = 0, Reply_Flags = 0, StartFrom = 0, Reply_ReturnNum = 0, Error = []\<rparr>"
  have h1: "MsgHeader_Decode ?m ([0x35, 0x00, 0x00, 0x00] @ ?hd @ ?body) binary_LittleEndian =
      (None, ?m1 53, ?body)"
    by (simp add: MsgHeader_Decode_def ReadFull_def Uint32_def Uint64_def msgHeaderSize_def)
  have h2: "MsgHeader_Decode ?m ([0x2F, 0x00, 0x00, 0x00] @ ?hd @ [0xFF]) binary_LittleEndian =
      (None, ?m1 47, [0xFF])"
    by (simp add: MsgHeader_Decode_def ReadFull_def Uint32_def Uint64_def msgHeaderSize_def)
  from C8_reply_decode [OF h1, of ?S]
  have a: "ReplyMsg_Decode ?S ?m ([0x35, 0x00, 0x00, 0x00] @ ?hd @ ?body) binary_LittleEndian =
     Inr (None, \<lparr>Length = 53, OpCode = 0x800007D4, Tid = 0, RouteId = 0, RequestId = 1,
           ContextId = 0xFFFFFFFFFFFFFFFF, Reply_Flags = 1, StartFrom = 0, Reply_ReturnNum = 0,
           Error = ''{}''\<rparr>, [])"
    by (simp add: Uint32_def Uint64_def Let_def)
  from C8_reply_decode [OF h2, of ?S]
  have b: "ReplyMsg_Decode ?S ?m ([0x2F, 0x00, 0x00, 0x00] @ ?hd @ [0xFF]) binary_LittleEndian =
     Inr (Some (ErrInvalidMsgLength 48 47), ?m1 47, [0xFF])"
    by simp
  from a b show ?thesis by simp
qed

subsection \<open>What the request encoders write\<close>
































subsection \<open>The documents of Delete and Update\<close>





subsection \<open>Alignment of the embedded documents\<close>











end
